theory Spec2Isabelle
  imports Main "HOL-Library.Word" "HOL-Library.Signed_Division" "HOL-Library.Sublist"
begin

section \<open>Crystal Dock media controls: the MPRIS player controller\<close>

text \<open>
  A shallow embedding of \<^verbatim>\<open>src/view/media_controls.cc\<close> and its header. The class
  \<^verbatim>\<open>MediaControls\<close> becomes a record of its member variables, every member function a
  function from the state before the call to the state after it. The session bus is the
  environment of a handler: a record of what each service answers while the handler runs.
\<close>

subsection \<open>Machine integers\<close>

text \<open>
  \<^verbatim>\<open>int\<close> is a 32-bit and \<^verbatim>\<open>qint64\<close> a 64-bit two's complement word. C++ division
  truncates towards zero (\<open>sdiv\<close> on the signed readings); a conversion between the two
  widths is \<open>scast\<close>.
\<close>

type_synonym int32 = "32 word"
type_synonym qint64 = "64 word"

definition sdiv32 :: "int32 \<Rightarrow> int32 \<Rightarrow> int32" where
  "sdiv32 a b = word_of_int (sint a sdiv sint b)"

definition sdiv64 :: "qint64 \<Rightarrow> qint64 \<Rightarrow> qint64" where
  "sdiv64 a b = word_of_int (sint a sdiv sint b)"

text \<open>Wire value in microseconds to the cached \<^verbatim>\<open>int\<close> in milliseconds:
  \<^verbatim>\<open>durationMs_ = durationUs / 1000\<close>, \<^verbatim>\<open>positionMs_ = positionUs / 1000\<close>.\<close>

definition usToMs :: "qint64 \<Rightarrow> int32" where
  "usToMs us = scast (sdiv64 us 1000)"

text \<open>Milliseconds to the wire value: \<^verbatim>\<open>static_cast<qint64>(positionMs) * 1000\<close>.\<close>

definition msToUs :: "int32 \<Rightarrow> qint64" where
  "msToUs ms = scast ms * 1000"

text \<open>The argument \<^verbatim>\<open>onPositionSliderChanged\<close> hands to \<^verbatim>\<open>setPosition\<close>:
  \<^verbatim>\<open>positionUs = (static_cast<qint64>(value) * durationMs_ * 1000) / 100\<close>, then
  \<^verbatim>\<open>positionUs / 1000\<close> narrowed to \<^verbatim>\<open>int\<close>.\<close>

definition sliderPositionUs :: "int32 \<Rightarrow> int32 \<Rightarrow> qint64" where
  "sliderPositionUs val dur = sdiv64 (scast val * scast dur * 1000) 100"

definition sliderPositionMs :: "int32 \<Rightarrow> int32 \<Rightarrow> int32" where
  "sliderPositionMs val dur = usToMs (sliderPositionUs val dur)"

text \<open>\<^verbatim>\<open>int percentage = (positionMs_ * 100) / durationMs_\<close>, the product wrapping
  around where it leaves the range of \<^verbatim>\<open>int\<close>; the slider keeps the value it is given
  inside its range 0..100.\<close>

definition sliderPercentage :: "int32 \<Rightarrow> int32 \<Rightarrow> int32" where
  "sliderPercentage pos dur = sdiv32 (pos * 100) dur"

definition sliderBound :: "int32 \<Rightarrow> int32" where
  "sliderBound v = (if v <s 0 then 0 else if 100 <s v then 100 else v)"

subsection \<open>Strings\<close>

text \<open>
  A \<^verbatim>\<open>QString\<close> is a list of characters. \<^verbatim>\<open>startsWith\<close> is \<open>prefix\<close>;
  \<^verbatim>\<open>remove(str)\<close> deletes every occurrence of \<open>str\<close>, scanning once from the left;
  \<^verbatim>\<open>contains\<close> looks for one occurrence; \<^verbatim>\<open>split(sep).first()\<close> is the text in front of
  the first occurrence of \<open>sep\<close>. In \<^verbatim>\<open>s.left(1).toUpper() + s.mid(1)\<close> the case mapping
  \<^verbatim>\<open>QString::toUpper\<close> belongs to Qt and not to this repository: it is the argument \<open>up\<close>.
\<close>

function removeStr :: "string \<Rightarrow> string \<Rightarrow> string" where
  "removeStr pat [] = []"
| "removeStr pat (c # cs) =
     (if pat \<noteq> [] \<and> prefix pat (c # cs) then removeStr pat (drop (length pat) (c # cs))
      else c # removeStr pat cs)"
  by pat_completeness auto
termination
  by (relation "measure (\<lambda>(pat, s). length s)") auto

fun containsStr :: "string \<Rightarrow> string \<Rightarrow> bool" where
  "containsStr pat [] = (pat = [])"
| "containsStr pat (c # cs) = (prefix pat (c # cs) \<or> containsStr pat cs)"

fun splitFirst :: "string \<Rightarrow> string \<Rightarrow> string" where
  "splitFirst sep [] = []"
| "splitFirst sep (c # cs) = (if prefix sep (c # cs) then [] else c # splitFirst sep cs)"

definition capitalizeFirst :: "(string \<Rightarrow> string) \<Rightarrow> string \<Rightarrow> string" where
  "capitalizeFirst up s = up (take 1 s) @ drop 1 s"

definition mprisPrefix :: string where
  "mprisPrefix = ''org.mpris.MediaPlayer2.''"

text \<open>\<^verbatim>\<open>QStringList::join(", ")\<close>.\<close>

fun joinStrings :: "string \<Rightarrow> string list \<Rightarrow> string" where
  "joinStrings sep [] = []"
| "joinStrings sep [x] = x"
| "joinStrings sep (x # y # ys) = x @ sep @ joinStrings sep (y # ys)"

subsection \<open>The session bus\<close>

datatype PlaybackStatus = Playing | Paused | Stopped

text \<open>The \<^verbatim>\<open>Metadata\<close> map, each entry after the conversion the code applies to it
  (\<^verbatim>\<open>toString\<close>, \<^verbatim>\<open>toStringList\<close>, \<^verbatim>\<open>toLongLong\<close>, \<^verbatim>\<open>value<QDBusObjectPath>\<close>).\<close>

record metadata =
  xesam_title :: string
  xesam_artist :: "string list"
  xesam_album :: string
  mpris_length :: qint64
  mpris_trackid :: string

text \<open>
  What the bus answers during one handler. \<open>registeredServiceNames\<close> is \<open>None\<close> when the
  bus interface is null or its reply invalid; \<open>properties_valid\<close> and \<open>player_valid\<close> are
  \<^verbatim>\<open>isValid()\<close> of a freshly made Properties or Player interface on a service; each
  \<open>get_\<close> field is the reply of \<^verbatim>\<open>Get\<close> for that property, \<open>None\<close> when the reply is
  not valid. The last field is not of the bus: it is Qt's \<^verbatim>\<open>QString::toUpper\<close>, which the
  handlers find around them like the bus and which this repository does not define.
\<close>

record bus =
  registeredServiceNames :: "string list option"
  properties_valid :: "string \<Rightarrow> bool"
  player_valid :: "string \<Rightarrow> bool"
  get_PlaybackStatus :: "string \<Rightarrow> string option"
  get_Metadata :: "string \<Rightarrow> metadata option"
  get_Position :: "string \<Rightarrow> qint64 option"
  get_Identity :: "string \<Rightarrow> string option"
  get_DesktopEntry :: "string \<Rightarrow> string option"
  toUpper :: "string \<Rightarrow> string"

text \<open>Method calls on the Player interface, and the bus traffic the controller's
  selection, polling and commands produce (the name lookups of the menu are not traced).\<close>

datatype player_call = Play | Pause | Previous | Next | SetPosition string qint64

datatype bus_event =
    Probe string
  | Poll string
  | MethodCall string player_call

subsection \<open>The controller's state\<close>

datatype menu_action =
    PlayerAction (action_text: string) (action_data: string) (action_checked: bool)
  | NoPlayersAction

text \<open>
  The member variables of \<^verbatim>\<open>MediaControls\<close>. An interface pointer is \<open>None\<close> when null
  and otherwise holds the service the interface was made for. The three media actions are
  enabled and disabled together (\<open>controlsEnabled\<close>). \<open>trace\<close> is not a member: it records
  the bus traffic. Repainting (\<^verbatim>\<open>parent_->update()\<close>) leaves no state behind.
\<close>

record media_controls =
  currentPlayer :: string
  currentTitle :: string
  currentArtist :: string
  currentAlbum :: string
  playbackStatus :: PlaybackStatus
  positionMs :: int32
  durationMs :: int32
  hasPosition :: bool
  playerInterface :: "string option"
  propertiesInterface :: "string option"
  availablePlayers :: "string list"
  playerSelectionMenu :: "menu_action list"
  controlsEnabled :: bool
  playPauseText :: string
  sliderEnabled :: bool
  sliderValue :: int32
  trackInfoLabel :: string
  trace :: "bus_event list"

definition parsePlaybackStatus :: "string \<Rightarrow> PlaybackStatus" where
  "parsePlaybackStatus status =
     (if status = ''Playing'' then Playing
      else if status = ''Paused'' then Paused
      else Stopped)"

subsection \<open>Display names\<close>

definition serviceDisplayName :: "(string \<Rightarrow> string) \<Rightarrow> string \<Rightarrow> string" where
  "serviceDisplayName up service =
     (let displayName = removeStr mprisPrefix service in
      if prefix ''firefox.instance'' displayName then ''Firefox''
      else if prefix ''chromium.instance'' displayName then ''Chromium''
      else if prefix ''chrome.instance'' displayName then ''Chrome''
      else if prefix ''spotify.instance'' displayName then ''Spotify''
      else if prefix ''vlc.instance'' displayName then ''VLC''
      else if containsStr ''.instance'' displayName
        then capitalizeFirst up (splitFirst ''.instance'' displayName)
      else capitalizeFirst up displayName)"

definition desktopDisplayName :: "bus \<Rightarrow> string \<Rightarrow> string option" where
  "desktopDisplayName b service =
     (case get_DesktopEntry b service of
        None \<Rightarrow> None
      | Some desktop \<Rightarrow> if desktop \<noteq> []
          then Some (capitalizeFirst (toUpper b) desktop)
          else None)"

definition propertyDisplayName :: "bus \<Rightarrow> string \<Rightarrow> string option" where
  "propertyDisplayName b service =
     (if properties_valid b service then
        (case get_Identity b service of
           None \<Rightarrow> desktopDisplayName b service
         | Some identity \<Rightarrow>
             if identity \<noteq> [] then Some identity else desktopDisplayName b service)
      else None)"

definition getPlayerDisplayName :: "bus \<Rightarrow> string \<Rightarrow> string" where
  "getPlayerDisplayName b service =
     (case propertyDisplayName b service of
        Some name \<Rightarrow> name
      | None \<Rightarrow> serviceDisplayName (toUpper b) service)"

subsection \<open>Registry, connection and polling\<close>

definition updateAvailablePlayers :: "bus \<Rightarrow> media_controls \<Rightarrow> media_controls" where
  "updateAvailablePlayers b s =
     (case registeredServiceNames b of
        None \<Rightarrow> s\<lparr>availablePlayers := []\<rparr>
      | Some names \<Rightarrow>
          (let players = filter (prefix mprisPrefix) names in
           s\<lparr>availablePlayers := players,
             playerSelectionMenu :=
               (if players = [] then [NoPlayersAction]
                else map (\<lambda>service. PlayerAction (getPlayerDisplayName b service) service
                                       (service = currentPlayer s)) players)\<rparr>))"

definition disconnectFromPlayer :: "media_controls \<Rightarrow> media_controls" where
  "disconnectFromPlayer s =
     s\<lparr>playerInterface := None,
       propertiesInterface := None,
       currentPlayer := [],
       currentTitle := [],
       currentArtist := [],
       currentAlbum := [],
       playbackStatus := Stopped,
       positionMs := 0,
       durationMs := 0,
       hasPosition := False,
       controlsEnabled := False,
       sliderEnabled := False,
       trackInfoLabel := ''No media playing''\<rparr>"

text \<open>The three sub-queries of \<^verbatim>\<open>updatePlayerInfo\<close> on the Properties interface \<open>p\<close>, and
  the label written at its end.\<close>

definition pollStatus :: "bus \<Rightarrow> string \<Rightarrow> media_controls \<Rightarrow> media_controls" where
  "pollStatus b p s =
     (case get_PlaybackStatus b p of
        None \<Rightarrow> s
      | Some reply \<Rightarrow>
          s\<lparr>playbackStatus := parsePlaybackStatus reply,
            playPauseText :=
              (if parsePlaybackStatus reply = Playing then ''Pause'' else ''Play'')\<rparr>)"

definition pollMetadata :: "bus \<Rightarrow> string \<Rightarrow> media_controls \<Rightarrow> media_controls" where
  "pollMetadata b p s =
     (case get_Metadata b p of
        None \<Rightarrow> s
      | Some m \<Rightarrow>
          s\<lparr>currentTitle := xesam_title m,
            currentArtist := joinStrings '', '' (xesam_artist m),
            currentAlbum := xesam_album m,
            durationMs := usToMs (mpris_length m),
            hasPosition := (0 <s usToMs (mpris_length m)),
            sliderEnabled := (0 <s usToMs (mpris_length m))\<rparr>)"

definition pollPosition :: "bus \<Rightarrow> string \<Rightarrow> media_controls \<Rightarrow> media_controls" where
  "pollPosition b p s =
     (if hasPosition s then
        (case get_Position b p of
           None \<Rightarrow> s
         | Some positionUs \<Rightarrow>
             (let s' = s\<lparr>positionMs := usToMs positionUs\<rparr> in
              if 0 <s durationMs s'
              then s'\<lparr>sliderValue := sliderBound (sliderPercentage (positionMs s') (durationMs s'))\<rparr>
              else s'))
      else s)"

definition trackInfo :: "media_controls \<Rightarrow> string" where
  "trackInfo s =
     (if currentTitle s \<noteq> [] then
        (if currentArtist s \<noteq> [] then currentTitle s @ [CHR 0x0A] @ currentArtist s
         else currentTitle s)
      else ''No media playing'')"

definition updatePlayerInfo :: "bus \<Rightarrow> media_controls \<Rightarrow> media_controls" where
  "updatePlayerInfo b s =
     (case (playerInterface s, propertiesInterface s) of
        (Some _, Some p) \<Rightarrow>
          (let s1 = pollStatus b p (s\<lparr>trace := trace s @ [Poll p]\<rparr>);
               s2 = pollMetadata b p s1;
               s3 = pollPosition b p s2
           in s3\<lparr>trackInfoLabel := trackInfo s3\<rparr>)
      | _ \<Rightarrow> s)"

definition connectToPlayer :: "bus \<Rightarrow> string \<Rightarrow> media_controls \<Rightarrow> media_controls" where
  "connectToPlayer b service s =
     (let s1 = (disconnectFromPlayer s)\<lparr>currentPlayer := service,
                                         playerInterface := Some service,
                                         propertiesInterface := Some service\<rparr>
      in if \<not> player_valid b service then disconnectFromPlayer s1
         else updatePlayerInfo b (updateAvailablePlayers b (s1\<lparr>controlsEnabled := True\<rparr>)))"

subsection \<open>Selection\<close>

text \<open>
  The status probe both selection loops write inline: a temporary Properties interface on
  the candidate, skipped when it is not valid or when the reply to
  \<^verbatim>\<open>Get PlaybackStatus\<close> is not valid.
\<close>

definition probeStatus :: "bus \<Rightarrow> string \<Rightarrow> PlaybackStatus option" where
  "probeStatus b service =
     (if \<not> properties_valid b service then None
      else (case get_PlaybackStatus b service of
              None \<Rightarrow> None
            | Some reply \<Rightarrow> Some (parsePlaybackStatus reply)))"

text \<open>The loop of \<^verbatim>\<open>connectToBestPlayer\<close> over the candidates still to visit, with its
  two locals \<^verbatim>\<open>bestPlayer\<close> and \<^verbatim>\<open>bestStatus\<close>; the empty list is the code after the loop.\<close>

fun bestPlayerLoop ::
  "bus \<Rightarrow> string list \<Rightarrow> string \<Rightarrow> PlaybackStatus \<Rightarrow> media_controls \<Rightarrow> media_controls" where
  "bestPlayerLoop b [] bestPlayer bestStatus s =
     (if bestPlayer \<noteq> [] then connectToPlayer b bestPlayer s else s)"
| "bestPlayerLoop b (service # rest) bestPlayer bestStatus s =
     (let s' = s\<lparr>trace := trace s @ [Probe service]\<rparr> in
      case probeStatus b service of
        None \<Rightarrow> bestPlayerLoop b rest bestPlayer bestStatus s'
      | Some status \<Rightarrow>
          if status = Playing then connectToPlayer b service s'
          else if status = Paused \<and> bestStatus = Stopped
            then bestPlayerLoop b rest service status s'
          else if bestPlayer = [] then bestPlayerLoop b rest service status s'
          else bestPlayerLoop b rest bestPlayer bestStatus s')"

definition connectToBestPlayer :: "bus \<Rightarrow> media_controls \<Rightarrow> media_controls" where
  "connectToBestPlayer b s =
     (case availablePlayers s of
        [] \<Rightarrow> s
      | [only] \<Rightarrow> connectToPlayer b only s
      | _ \<Rightarrow> bestPlayerLoop b (availablePlayers s) [] Stopped s)"

fun betterPlayerLoop :: "bus \<Rightarrow> string list \<Rightarrow> media_controls \<Rightarrow> media_controls" where
  "betterPlayerLoop b [] s = s"
| "betterPlayerLoop b (service # rest) s =
     (if service = currentPlayer s then betterPlayerLoop b rest s
      else
        (let s' = s\<lparr>trace := trace s @ [Probe service]\<rparr> in
         case probeStatus b service of
           None \<Rightarrow> betterPlayerLoop b rest s'
         | Some status \<Rightarrow>
             if status = Playing then connectToPlayer b service s'
             else betterPlayerLoop b rest s'))"

definition checkForBetterPlayer :: "bus \<Rightarrow> media_controls \<Rightarrow> media_controls" where
  "checkForBetterPlayer b s =
     (if playbackStatus s = Playing then s
      else betterPlayerLoop b (availablePlayers s) s)"

subsection \<open>Slots\<close>

definition refreshMediaInfo :: "bus \<Rightarrow> media_controls \<Rightarrow> media_controls" where
  "refreshMediaInfo b s =
     (if playerInterface s = None then s
      else
        (let s' = updatePlayerInfo b s in
         if 1 < length (availablePlayers s') \<and> playbackStatus s' \<noteq> Playing
         then checkForBetterPlayer b s'
         else s'))"

definition callPlayer :: "player_call \<Rightarrow> media_controls \<Rightarrow> media_controls" where
  "callPlayer c s =
     (case playerInterface s of
        None \<Rightarrow> s
      | Some pl \<Rightarrow> s\<lparr>trace := trace s @ [MethodCall pl c]\<rparr>)"

definition onPlayPause :: "media_controls \<Rightarrow> media_controls" where
  "onPlayPause s = callPlayer (if playbackStatus s = Playing then Pause else Play) s"

definition onPrevious :: "media_controls \<Rightarrow> media_controls" where
  "onPrevious s = callPlayer Previous s"

definition onNext :: "media_controls \<Rightarrow> media_controls" where
  "onNext s = callPlayer Next s"

text \<open>
  \<^verbatim>\<open>setPosition\<close> tests the Player interface only and then calls through the Properties
  interface: a null Properties pointer there is a fault, the one way a slot can fail.
\<close>

datatype fault = NullDereference

definition setPosition :: "bus \<Rightarrow> int32 \<Rightarrow> media_controls \<Rightarrow> fault + media_controls" where
  "setPosition b posMs s =
     (case playerInterface s of
        None \<Rightarrow> Inr s
      | Some pl \<Rightarrow>
          (case propertiesInterface s of
             None \<Rightarrow> Inl NullDereference
           | Some p \<Rightarrow>
               (case get_Metadata b p of
                  None \<Rightarrow> Inr s
                | Some m \<Rightarrow>
                    Inr (s\<lparr>trace := trace s @
                           [MethodCall pl (SetPosition (mpris_trackid m) (msToUs posMs))]\<rparr>))))"

definition onPositionSliderChanged ::
  "bus \<Rightarrow> int32 \<Rightarrow> media_controls \<Rightarrow> fault + media_controls" where
  "onPositionSliderChanged b val s =
     (if playerInterface s = None \<or> \<not> hasPosition s then Inr s
      else setPosition b (sliderPositionMs val (durationMs s)) s)"

text \<open>\<open>sender\<close> is the data of the action that sent the signal, \<open>None\<close> when the sender is
  not an action.\<close>

definition onPlayerSelected :: "bus \<Rightarrow> string option \<Rightarrow> media_controls \<Rightarrow> media_controls" where
  "onPlayerSelected b sender s =
     (case sender of
        None \<Rightarrow> s
      | Some service \<Rightarrow> connectToPlayer b service s)"

definition onDBusServiceRegistered :: "bus \<Rightarrow> string \<Rightarrow> media_controls \<Rightarrow> media_controls" where
  "onDBusServiceRegistered b service s =
     (if prefix mprisPrefix service then
        (let s' = updateAvailablePlayers b s in
         if currentPlayer s' = [] \<and> availablePlayers s' \<noteq> [] then connectToBestPlayer b s'
         else s')
      else s)"

definition onDBusServiceUnregistered :: "bus \<Rightarrow> string \<Rightarrow> media_controls \<Rightarrow> media_controls" where
  "onDBusServiceUnregistered b service s =
     (if prefix mprisPrefix service then
        updateAvailablePlayers b
          (if service = currentPlayer s then
             (let s' = updateAvailablePlayers b (disconnectFromPlayer s) in
              if availablePlayers s' \<noteq> [] then connectToBestPlayer b s' else s')
           else s)
      else s)"

definition getLabel :: "bus \<Rightarrow> media_controls \<Rightarrow> string" where
  "getLabel b s =
     (if currentPlayer s = [] then ''Media Controls: No player''
      else if currentTitle s \<noteq> [] then
        (if currentArtist s \<noteq> [] then currentTitle s @ '' - '' @ currentArtist s
         else currentTitle s)
      else ''Media Controls: '' @ getPlayerDisplayName b (currentPlayer s))"

datatype mouse_button = LeftButton | RightButton | MiddleButton | OtherButton

text \<open>Showing the popup menu changes nothing of the controller.\<close>

definition mousePressEvent :: "mouse_button \<Rightarrow> media_controls \<Rightarrow> media_controls" where
  "mousePressEvent button s =
     (case button of
        LeftButton \<Rightarrow> if currentPlayer s = [] then s else onPlayPause s
      | RightButton \<Rightarrow> s
      | MiddleButton \<Rightarrow> onNext s
      | OtherButton \<Rightarrow> s)"

subsection \<open>Construction and the event loop\<close>

text \<open>The members after their initialisers and \<^verbatim>\<open>createMenu\<close>.\<close>

definition initial :: media_controls where
  "initial =
     \<lparr>currentPlayer = [], currentTitle = [], currentArtist = [], currentAlbum = [],
      playbackStatus = Stopped, positionMs = 0, durationMs = 0, hasPosition = False,
      playerInterface = None, propertiesInterface = None, availablePlayers = [],
      playerSelectionMenu = [], controlsEnabled = False, playPauseText = ''Play'',
      sliderEnabled = False, sliderValue = 0, trackInfoLabel = ''No media playing'',
      trace = []\<rparr>"

definition startup :: "bus \<Rightarrow> media_controls" where
  "startup b =
     (let s = updateAvailablePlayers b initial in
      if availablePlayers s \<noteq> [] then connectToBestPlayer b s else s)"

text \<open>
  One handler runs to completion per event. The timer, the service watcher and the slider
  arrive with the bus as it is then; a menu event names the entry that was triggered, and
  only the player entries are wired to \<^verbatim>\<open>onPlayerSelected\<close>.
\<close>

datatype event =
    TimerTick bus
  | PlayPauseTriggered
  | PreviousTriggered
  | NextTriggered
  | SliderValueChanged bus int32
  | MenuActionTriggered bus nat
  | ServiceRegistered bus string
  | ServiceUnregistered bus string
  | MousePressed mouse_button

definition menuSender :: "media_controls \<Rightarrow> nat \<Rightarrow> string option" where
  "menuSender s i =
     (if i < length (playerSelectionMenu s) then
        (case playerSelectionMenu s ! i of
           PlayerAction _ service _ \<Rightarrow> Some service
         | NoPlayersAction \<Rightarrow> None)
      else None)"

fun handle :: "event \<Rightarrow> media_controls \<Rightarrow> fault + media_controls" where
  "handle (TimerTick b) s = Inr (refreshMediaInfo b s)"
| "handle PlayPauseTriggered s = Inr (onPlayPause s)"
| "handle PreviousTriggered s = Inr (onPrevious s)"
| "handle NextTriggered s = Inr (onNext s)"
| "handle (SliderValueChanged b val) s = onPositionSliderChanged b val s"
| "handle (MenuActionTriggered b i) s = Inr (onPlayerSelected b (menuSender s i) s)"
| "handle (ServiceRegistered b service) s = Inr (onDBusServiceRegistered b service s)"
| "handle (ServiceUnregistered b service) s = Inr (onDBusServiceUnregistered b service s)"
| "handle (MousePressed button) s = Inr (mousePressEvent button s)"

inductive reachable :: "media_controls \<Rightarrow> bool" where
  reachable_startup: "reachable (startup b)"
| reachable_handle: "reachable s \<Longrightarrow> handle e s = Inr s' \<Longrightarrow> reachable s'"

text \<open>The state model the controller publishes, and its empty value.\<close>

record state_model =
  activePlayer :: string
  title :: string
  artist :: string
  album :: string
  status :: PlaybackStatus
  position :: int32
  duration :: int32
  positionKnown :: bool

definition stateModel :: "media_controls \<Rightarrow> state_model" where
  "stateModel s =
     \<lparr>activePlayer = currentPlayer s, title = currentTitle s, artist = currentArtist s,
      album = currentAlbum s, status = playbackStatus s, position = positionMs s,
      duration = durationMs s, positionKnown = hasPosition s\<rparr>"

definition emptyModel :: state_model where
  "emptyModel =
     \<lparr>activePlayer = [], title = [], artist = [], album = [], status = Stopped,
      position = 0, duration = 0, positionKnown = False\<rparr>"

definition connected :: "media_controls \<Rightarrow> bool" where
  "connected s = (playerInterface s \<noteq> None)"

text \<open>The state right after a bind on \<open>x\<close> that starts from nothing cached: what a
  successful \<^verbatim>\<open>connectToPlayer\<close> polls from.\<close>

definition boundTo :: "string \<Rightarrow> media_controls" where
  "boundTo x =
     initial\<lparr>currentPlayer := x, playerInterface := Some x, propertiesInterface := Some x\<rparr>"

text \<open>\<^verbatim>\<open>connectToPlayer\<close> up to its poll, when the Player interface is valid.\<close>

definition bindTo :: "bus \<Rightarrow> string \<Rightarrow> media_controls \<Rightarrow> media_controls" where
  "bindTo b x s = updateAvailablePlayers b
     ((disconnectFromPlayer s)\<lparr>currentPlayer := x, playerInterface := Some x,
         propertiesInterface := Some x, controlsEnabled := True\<rparr>)"

text \<open>The services a trace probed, in order; the candidates of a list other than the
  current player.\<close>

fun probes :: "bus_event list \<Rightarrow> string list" where
  "probes [] = []"
| "probes (Probe x # t) = x # probes t"
| "probes (e # t) = probes t"

definition peers :: "media_controls \<Rightarrow> string list \<Rightarrow> string list" where
  "peers s xs = filter (\<lambda>x. x \<noteq> currentPlayer s) xs"

text \<open>A bus name as the bus hands them out: non-empty elements separated by single
  dots (the part of the D-Bus naming rule that matters here).\<close>

fun dottedName :: "string \<Rightarrow> bool" where
  "dottedName [] = False"
| "dottedName [c] = (c \<noteq> CHR ''.'')"
| "dottedName (c # d # cs) =
     (c \<noteq> CHR ''.'' \<and> (if d = CHR ''.'' then dottedName cs else dottedName (d # cs)))"

text \<open>What holds of the controller between two handlers: the two interface pointers are
  null together, and exactly when no player is current; every registered candidate and
  every entry of the selection menu carries the namespace prefix.\<close>

definition consistent :: "media_controls \<Rightarrow> bool" where
  "consistent s \<longleftrightarrow>
     (playerInterface s = None \<longleftrightarrow> propertiesInterface s = None)
     \<and> (playerInterface s = None \<longleftrightarrow> currentPlayer s = [])
     \<and> (\<forall>x\<in>set (availablePlayers s). prefix mprisPrefix x)
     \<and> (\<forall>a\<in>set (playerSelectionMenu s).
          case a of PlayerAction n d c \<Rightarrow> prefix mprisPrefix d | NoPlayersAction \<Rightarrow> True)"

text \<open>The five tests of the table of known players in \<^verbatim>\<open>getPlayerDisplayName\<close>, taken
  together, on the identifier without its namespace prefix.\<close>

definition knownPlayer :: "string \<Rightarrow> bool" where
  "knownPlayer d \<longleftrightarrow>
     prefix ''firefox.instance'' d \<or> prefix ''chromium.instance'' d
     \<or> prefix ''chrome.instance'' d \<or> prefix ''spotify.instance'' d
     \<or> prefix ''vlc.instance'' d"

subsection \<open>Concrete buses and states\<close>

definition vlc :: string where
  "vlc = ''org.mpris.MediaPlayer2.vlc''"

definition mpv :: string where
  "mpv = ''org.mpris.MediaPlayer2.mpv''"

definition spotify :: string where
  "spotify = ''org.mpris.MediaPlayer2.spotify''"

definition song :: metadata where
  "song =
     \<lparr>xesam_title = ''Song'', xesam_artist = [''Ann'', ''Bob''], xesam_album = ''Album'',
      mpris_length = 200001000, mpris_trackid = ''/track/7''\<rparr>"

text \<open>A case mapping for the concrete buses: the ASCII letters, character by character,
  which is what \<^verbatim>\<open>QString::toUpper\<close> does on the ASCII names used below.\<close>

definition asciiUpperChar :: "char \<Rightarrow> char" where
  "asciiUpperChar c =
     (if (97::nat) \<le> of_char c \<and> of_char c \<le> (122::nat) then char_of (of_char c - (32::nat))
      else c)"

definition asciiUpper :: "string \<Rightarrow> string" where
  "asciiUpper s = map asciiUpperChar s"

text \<open>A bus on which nothing answers.\<close>

definition silentBus :: bus where
  "silentBus =
     \<lparr>registeredServiceNames = None, properties_valid = (\<lambda>_. False),
      player_valid = (\<lambda>_. False), get_PlaybackStatus = (\<lambda>_. None),
      get_Metadata = (\<lambda>_. None), get_Position = (\<lambda>_. None), get_Identity = (\<lambda>_. None),
      get_DesktopEntry = (\<lambda>_. None), toUpper = asciiUpper\<rparr>"

text \<open>A bus with the listed players, each with its playback status; every one of them
  binds, plays \<open>song\<close> and stands at 61.5 seconds.\<close>

definition playersBus :: "(string \<times> string) list \<Rightarrow> bus" where
  "playersBus players =
     \<lparr>registeredServiceNames = Some (map fst players),
      properties_valid = (\<lambda>x. map_of players x \<noteq> None),
      player_valid = (\<lambda>x. map_of players x \<noteq> None),
      get_PlaybackStatus = map_of players,
      get_Metadata = (\<lambda>x. if map_of players x \<noteq> None then Some song else None),
      get_Position = (\<lambda>x. if map_of players x \<noteq> None then Some 61500999 else None),
      get_Identity = (\<lambda>_. None),
      get_DesktopEntry = (\<lambda>_. None),
      toUpper = asciiUpper\<rparr>"

text \<open>Connected to \<open>vlc\<close>, paused in a track of 200001 ms at 1 s.\<close>

definition pausedOnVlc :: media_controls where
  "pausedOnVlc =
     initial\<lparr>currentPlayer := vlc, playerInterface := Some vlc, propertiesInterface := Some vlc,
             currentTitle := ''Old'', currentArtist := ''Someone'', currentAlbum := ''Before'',
             playbackStatus := Paused, positionMs := 1000, durationMs := 200001,
             hasPosition := True, availablePlayers := [vlc, mpv], controlsEnabled := True,
             sliderEnabled := True\<rparr>"

text \<open>\<open>vlc\<close> plays, but the reply to \<^verbatim>\<open>Get PlaybackStatus\<close> is not valid.\<close>

definition statusFailBus :: bus where
  "statusFailBus = (playersBus [(vlc, ''Playing'')])\<lparr>get_PlaybackStatus := (\<lambda>_. None)\<rparr>"

text \<open>Three candidates registered, none connected; buses for the selection scenarios.\<close>

definition idle3 :: media_controls where
  "idle3 = initial\<lparr>availablePlayers := [vlc, mpv, spotify]\<rparr>"

definition secondPlays :: bus where
  "secondPlays = playersBus [(vlc, ''Stopped''), (mpv, ''Playing''), (spotify, ''Playing'')]"

definition nobodyPlays :: bus where
  "nobodyPlays = playersBus [(vlc, ''Stopped''), (mpv, ''Paused''), (spotify, ''Paused'')]"

definition peerPlays :: bus where
  "peerPlays = playersBus [(vlc, ''Paused''), (mpv, ''Playing'')]"

definition peerPaused :: bus where
  "peerPaused = playersBus [(vlc, ''Paused''), (mpv, ''Paused'')]"

definition bothPlay :: bus where
  "bothPlay = playersBus [(vlc, ''Playing''), (mpv, ''Playing'')]"

text \<open>A bus whose services answer the name queries: \<open>vlc\<close> has an identity, \<open>mpv\<close>
  only a desktop entry.\<close>

definition namedBus :: bus where
  "namedBus =
     silentBus\<lparr>properties_valid := (\<lambda>_. True),
               get_Identity := (\<lambda>x. if x = vlc then Some ''VLC media player'' else None),
               get_DesktopEntry := (\<lambda>x. if x = mpv then Some ''mpv'' else None)\<rparr>"

text \<open>One player, \<open>vlc\<close>, playing; and the same bus while its Player interface does not
  bind.\<close>

definition vlcPlays :: bus where
  "vlcPlays = playersBus [(vlc, ''Playing'')]"

definition bindFails :: bus where
  "bindFails = vlcPlays\<lparr>player_valid := (\<lambda>_. False)\<rparr>"

text \<open>One player, \<open>mpv\<close>, playing.\<close>

definition mpvPlays :: bus where
  "mpvPlays = playersBus [(mpv, ''Playing'')]"

section \<open>Properties\<close>

subsection \<open>Arithmetic of the two time units\<close>

lemma sdiv_nonneg: "0 \<le> k \<Longrightarrow> 0 < l \<Longrightarrow> (k::int) sdiv l = k div l"
  by (cases "k = 0") (simp_all add: signed_divide_int_def)

lemma sdiv_mult_cancel: "(k * 1000 :: int) sdiv 1000 = k"
  by (simp add: signed_divide_int_def sgn_mult abs_mult sgn_if)

lemma sint32_range: "- (2 ^ 31) \<le> sint (w :: int32) \<and> sint w < 2 ^ 31"
  using sint_ge [of w] sint_lt [of w] by simp

lemma stb63: "- (2 ^ 63) \<le> k \<Longrightarrow> k < 2 ^ 63 \<Longrightarrow> signed_take_bit 63 (k::int) = k"
  by (rule signed_take_bit_int_eq_self) simp_all

lemma stb31: "- (2 ^ 31) \<le> k \<Longrightarrow> k < 2 ^ 31 \<Longrightarrow> signed_take_bit 31 (k::int) = k"
  by (rule signed_take_bit_int_eq_self) simp_all

lemma sint_sdiv64: "sint (sdiv64 a b) = signed_take_bit 63 (sint a sdiv sint b)"
  unfolding sdiv64_def sint_sbintrunc' by simp

lemma sint_scast_down: "sint (scast (w :: qint64) :: int32) = signed_take_bit 31 (sint w)"
  unfolding scast_eq sint_sbintrunc' by simp

lemma sint_scast_up: "sint (scast (w :: int32) :: qint64) = sint w"
proof -
  have "sint (scast w :: qint64) = signed_take_bit 63 (sint w)"
    unfolding scast_eq sint_sbintrunc' by simp
  also have "\<dots> = sint w"
    using sint32_range [of w] by (intro stb63) simp_all
  finally show ?thesis .
qed

lemma sint_mult64: "sint ((a :: qint64) * b) = signed_take_bit 63 (sint a * sint b)"
  by (simp add: sint_word_ariths)

lemma sint_msToUs: "sint (msToUs m) = sint m * 1000"
proof -
  have r: "- (2 ^ 31) \<le> sint m" "sint m < 2 ^ 31" using sint32_range [of m] by simp_all
  have "sint (msToUs m) = signed_take_bit 63 (sint m * 1000)"
    by (simp add: msToUs_def sint_mult64 sint_scast_up)
  also have "\<dots> = sint m * 1000"
    using r by (intro stb63) simp_all
  finally show ?thesis .
qed

lemma usToMs_msToUs: "usToMs (msToUs m) = m"
proof -
  have r: "- (2 ^ 31) \<le> sint m" "sint m < 2 ^ 31" using sint32_range [of m] by simp_all
  have "sint (sdiv64 (msToUs m) 1000) = signed_take_bit 63 (sint m)"
    by (simp add: sint_sdiv64 sint_msToUs sdiv_mult_cancel)
  also have "\<dots> = sint m" using r by (intro stb63) simp_all
  finally have "sint (usToMs (msToUs m)) = sint m"
    using r by (simp add: usToMs_def sint_scast_down stb31)
  then show ?thesis by (rule signed_word_eqI)
qed

lemma usToMs_msToUs_funpow: "((usToMs \<circ> msToUs) ^^ n) m = m"
  by (induction n) (simp_all add: usToMs_msToUs)

lemma sint_usToMs:
  assumes "0 \<le> sint u" "sint u < 2 ^ 31 * 1000"
  shows "sint (usToMs u) = sint u div 1000"
proof -
  have ge: "0 \<le> sint u div 1000" using assms by simp
  have lt: "sint u div 1000 < 2 ^ 31" using assms by simp
  have "sint (sdiv64 u 1000) = signed_take_bit 63 (sint u div 1000)"
    using assms by (simp add: sint_sdiv64 sdiv_nonneg)
  also have "\<dots> = sint u div 1000" using ge lt by (intro stb63) simp_all
  finally have "sint (usToMs u) = signed_take_bit 31 (sint u div 1000)"
    by (simp add: usToMs_def sint_scast_down)
  also have "\<dots> = sint u div 1000" using ge lt by (intro stb31) simp_all
  finally show ?thesis .
qed

lemma sint_sliderPositionUs:
  assumes "0 \<le> sint p" "sint p \<le> 100" "0 \<le> sint d"
  shows "sint (sliderPositionUs p d) = sint p * sint d * 10"
proof -
  define x where "x = sint p * sint d"
  have d: "sint d < 2 ^ 31" using sint32_range [of d] by simp
  have pd: "0 \<le> x" using assms by (simp add: x_def)
  have "x \<le> 100 * sint d" unfolding x_def using assms by (intro mult_right_mono) simp_all
  then have ub: "x < 100 * 2 ^ 31" using d by simp
  have m1: "sint (scast p * scast d :: qint64) = x"
    using pd ub by (simp add: sint_mult64 sint_scast_up stb63 x_def)
  have "sint (scast p * scast d * 1000 :: qint64) = signed_take_bit 63 (x * 1000)"
    unfolding sint_mult64 [of "scast p * scast d" 1000] m1 by simp
  also have "\<dots> = x * 1000" using pd ub by (intro stb63) simp_all
  finally have m2: "sint (scast p * scast d * 1000 :: qint64) = x * 1000" .
  have "sint (sliderPositionUs p d) = signed_take_bit 63 ((x * 1000) sdiv 100)"
    unfolding sliderPositionUs_def sint_sdiv64 m2 by simp
  also have "(x * 1000) sdiv 100 = x * 10"
    using pd by (simp add: sdiv_nonneg)
  also have "signed_take_bit 63 (x * 10) = x * 10"
    using pd ub by (intro stb63) simp_all
  finally show ?thesis by (simp add: x_def)
qed

lemma sint_sliderPositionMs:
  assumes "0 \<le> sint p" "sint p \<le> 100" "0 \<le> sint d"
  shows "sint (sliderPositionMs p d) = (sint p * sint d) div 100"
proof -
  define x where "x = sint p * sint d"
  have d: "sint d < 2 ^ 31" using sint32_range [of d] by simp
  have pd: "0 \<le> x" using assms by (simp add: x_def)
  have "x \<le> 100 * sint d" unfolding x_def using assms by (intro mult_right_mono) simp_all
  then have le: "x div 100 \<le> sint d" by simp
  have ge: "0 \<le> x div 100" using pd by simp
  have "(x * 10) sdiv 1000 = (x * 10) div 1000"
    using pd by (simp add: sdiv_nonneg)
  also have "\<dots> = x div 100" by simp
  finally have q: "(x * 10) sdiv 1000 = x div 100" .
  have us: "sint (sliderPositionUs p d) = x * 10"
    using sint_sliderPositionUs [OF assms] by (simp add: x_def)
  have "sint (sdiv64 (sliderPositionUs p d) 1000) = signed_take_bit 63 (x div 100)"
    unfolding sint_sdiv64 us using q by simp
  also have "\<dots> = x div 100"
    using ge le d by (intro stb63) simp_all
  finally have "sint (sliderPositionMs p d) = signed_take_bit 31 (x div 100)"
    by (simp add: sliderPositionMs_def usToMs_def sint_scast_down)
  also have "\<dots> = x div 100"
    using ge le d by (intro stb31) simp_all
  finally show ?thesis by (simp add: x_def)
qed

lemma onPositionSliderChanged_call:
  assumes "hasPosition s" "playerInterface s = Some pl" "propertiesInterface s = Some pr"
    and "get_Metadata b pr = Some md"
  shows "onPositionSliderChanged b p s =
           Inr (s\<lparr>trace := trace s @
                  [MethodCall pl (SetPosition (mpris_trackid md)
                     (msToUs (sliderPositionMs p (durationMs s))))]\<rparr>)"
  using assms by (simp add: onPositionSliderChanged_def setPosition_def)

text \<open>
  Claim C7. For a duration \<open>d\<close> of zero or more milliseconds and a slider value \<open>p\<close>
  from 0 to 100, the position \<^verbatim>\<open>onPositionSliderChanged\<close> hands to \<^verbatim>\<open>setPosition\<close> is
  exactly \<open>\<lfloor>p * d / 100\<rfloor>\<close> milliseconds, and the \<^verbatim>\<open>SetPosition\<close> call that goes out carries
  that many milliseconds times 1000. Milliseconds to microseconds (times 1000) and back
  (truncating division by 1000) returns the value it started from, however often it is
  repeated; a wire value of microseconds that fits the cached \<^verbatim>\<open>int\<close> loses less than
  one millisecond on its way to milliseconds and back, and only downwards.
\<close>

theorem seek_percent_exact:
  assumes "0 \<le> sint p" and "sint p \<le> 100" and "0 \<le> sint d"
  shows "sint (sliderPositionMs p d) = (sint p * sint d) div 100
     \<and> (hasPosition s \<and> durationMs s = d \<and> playerInterface s = Some pl
          \<and> propertiesInterface s = Some pr \<and> get_Metadata b pr = Some md \<longrightarrow>
        onPositionSliderChanged b p s =
          Inr (s\<lparr>trace := trace s @
                 [MethodCall pl (SetPosition (mpris_trackid md)
                    (word_of_int ((sint p * sint d) div 100 * 1000)))]\<rparr>))
     \<and> usToMs (msToUs m) = m
     \<and> ((usToMs \<circ> msToUs) ^^ n) m = m
     \<and> (0 \<le> sint u \<and> sint u < 2 ^ 31 * 1000 \<longrightarrow>
          sint (msToUs (usToMs u)) \<le> sint u \<and> sint u - sint (msToUs (usToMs u)) < 1000)"
proof -
  have target: "sint (sliderPositionMs p d) = (sint p * sint d) div 100"
    by (rule sint_sliderPositionMs [OF assms])
  have "msToUs (sliderPositionMs p d) = word_of_int (sint (msToUs (sliderPositionMs p d)))"
    by simp
  also have "\<dots> = word_of_int ((sint p * sint d) div 100 * 1000)"
    by (simp only: sint_msToUs target)
  finally have wire: "msToUs (sliderPositionMs p d) = word_of_int ((sint p * sint d) div 100 * 1000)" .
  have sent: "hasPosition s \<and> durationMs s = d \<and> playerInterface s = Some pl
          \<and> propertiesInterface s = Some pr \<and> get_Metadata b pr = Some md \<longrightarrow>
        onPositionSliderChanged b p s =
          Inr (s\<lparr>trace := trace s @
                 [MethodCall pl (SetPosition (mpris_trackid md)
                    (word_of_int ((sint p * sint d) div 100 * 1000)))]\<rparr>)"
    using onPositionSliderChanged_call [of s pl pr b md p] wire by auto
  have wireloss: "0 \<le> sint u \<and> sint u < 2 ^ 31 * 1000 \<longrightarrow>
          sint (msToUs (usToMs u)) \<le> sint u \<and> sint u - sint (msToUs (usToMs u)) < 1000"
  proof
    assume r: "0 \<le> sint u \<and> sint u < 2 ^ 31 * 1000"
    then have "sint (msToUs (usToMs u)) = sint u div 1000 * 1000"
      by (simp add: sint_msToUs sint_usToMs)
    then show "sint (msToUs (usToMs u)) \<le> sint u \<and> sint u - sint (msToUs (usToMs u)) < 1000"
      by presburger
  qed
  show ?thesis
    using target sent wireloss by (simp add: usToMs_msToUs usToMs_msToUs_funpow del: funpow.simps)
qed

theorem seek_percent_exact_witness:
  "0 \<le> sint (50 :: int32) \<and> sint (50 :: int32) \<le> 100 \<and> 0 \<le> sint (200001 :: int32)
   \<and> sint (sliderPositionMs 50 200001) = 100000
   \<and> hasPosition pausedOnVlc \<and> durationMs pausedOnVlc = 200001
   \<and> onPositionSliderChanged (playersBus [(vlc, ''Paused'')]) 50 pausedOnVlc =
       Inr (pausedOnVlc\<lparr>trace := [MethodCall vlc (SetPosition ''/track/7'' 100000000)]\<rparr>)
   \<and> usToMs (msToUs 1000) = 1000
   \<and> sint (61500999 :: qint64) - sint (msToUs (usToMs 61500999)) < 1000"
  using seek_percent_exact [of 50 200001 pausedOnVlc vlc vlc "playersBus [(vlc, ''Paused'')]" song
      1000 3 61500999]
  by (simp add: pausedOnVlc_def initial_def playersBus_def vlc_def song_def)

subsection \<open>Polling, field by field\<close>

lemma pollStatus_fields:
  "pollStatus b p s =
     s\<lparr>playbackStatus :=
         (case get_PlaybackStatus b p of
            None \<Rightarrow> playbackStatus s
          | Some reply \<Rightarrow> parsePlaybackStatus reply),
       playPauseText :=
         (case get_PlaybackStatus b p of
            None \<Rightarrow> playPauseText s
          | Some reply \<Rightarrow> if parsePlaybackStatus reply = Playing then ''Pause'' else ''Play'')\<rparr>"
  by (cases "get_PlaybackStatus b p") (simp_all add: pollStatus_def)

lemma pollMetadata_fields:
  "pollMetadata b p s =
     s\<lparr>currentTitle :=
         (case get_Metadata b p of None \<Rightarrow> currentTitle s | Some m \<Rightarrow> xesam_title m),
       currentArtist :=
         (case get_Metadata b p of
            None \<Rightarrow> currentArtist s
          | Some m \<Rightarrow> joinStrings '', '' (xesam_artist m)),
       currentAlbum :=
         (case get_Metadata b p of None \<Rightarrow> currentAlbum s | Some m \<Rightarrow> xesam_album m),
       durationMs :=
         (case get_Metadata b p of None \<Rightarrow> durationMs s | Some m \<Rightarrow> usToMs (mpris_length m)),
       hasPosition :=
         (case get_Metadata b p of
            None \<Rightarrow> hasPosition s
          | Some m \<Rightarrow> 0 <s usToMs (mpris_length m)),
       sliderEnabled :=
         (case get_Metadata b p of
            None \<Rightarrow> sliderEnabled s
          | Some m \<Rightarrow> 0 <s usToMs (mpris_length m))\<rparr>"
  by (cases "get_Metadata b p") (simp_all add: pollMetadata_def)

lemma pollPosition_fields:
  "pollPosition b p s =
     s\<lparr>positionMs :=
         (if hasPosition s
          then (case get_Position b p of None \<Rightarrow> positionMs s | Some u \<Rightarrow> usToMs u)
          else positionMs s),
       sliderValue :=
         (if hasPosition s
          then (case get_Position b p of
                  None \<Rightarrow> sliderValue s
                | Some u \<Rightarrow>
                    if 0 <s durationMs s
                    then sliderBound (sliderPercentage (usToMs u) (durationMs s))
                    else sliderValue s)
          else sliderValue s)\<rparr>"
  by (cases "get_Position b p") (simp_all add: pollPosition_def Let_def)

lemma updatePlayerInfo_connected:
  "playerInterface s = Some pl \<Longrightarrow> propertiesInterface s = Some p \<Longrightarrow>
   updatePlayerInfo b s =
     (let s3 = pollPosition b p (pollMetadata b p (pollStatus b p (s\<lparr>trace := trace s @ [Poll p]\<rparr>)))
      in s3\<lparr>trackInfoLabel := trackInfo s3\<rparr>)"
  by (simp add: updatePlayerInfo_def Let_def)

lemma updatePlayerInfo_disconnected:
  "playerInterface s = None \<or> propertiesInterface s = None \<Longrightarrow> updatePlayerInfo b s = s"
  by (auto simp add: updatePlayerInfo_def split: option.splits)

lemmas poll_unfold =
  updatePlayerInfo_connected Let_def pollStatus_fields pollMetadata_fields pollPosition_fields

lemma updatePlayerInfo_frame:
  "playerInterface (updatePlayerInfo b s) = playerInterface s"
  "propertiesInterface (updatePlayerInfo b s) = propertiesInterface s"
  "currentPlayer (updatePlayerInfo b s) = currentPlayer s"
  "availablePlayers (updatePlayerInfo b s) = availablePlayers s"
  "playerSelectionMenu (updatePlayerInfo b s) = playerSelectionMenu s"
  "controlsEnabled (updatePlayerInfo b s) = controlsEnabled s"
proof -
  consider (c) pl p where "playerInterface s = Some pl" "propertiesInterface s = Some p"
    | (d) "playerInterface s = None \<or> propertiesInterface s = None"
    by (cases "playerInterface s"; cases "propertiesInterface s") auto
  then have "playerInterface (updatePlayerInfo b s) = playerInterface s
    \<and> propertiesInterface (updatePlayerInfo b s) = propertiesInterface s
    \<and> currentPlayer (updatePlayerInfo b s) = currentPlayer s
    \<and> availablePlayers (updatePlayerInfo b s) = availablePlayers s
    \<and> playerSelectionMenu (updatePlayerInfo b s) = playerSelectionMenu s
    \<and> controlsEnabled (updatePlayerInfo b s) = controlsEnabled s"
  proof cases
    case c
    then show ?thesis by (simp add: poll_unfold)
  next
    case d
    then show ?thesis by (simp add: updatePlayerInfo_disconnected)
  qed
  then show "playerInterface (updatePlayerInfo b s) = playerInterface s"
  "propertiesInterface (updatePlayerInfo b s) = propertiesInterface s"
  "currentPlayer (updatePlayerInfo b s) = currentPlayer s"
  "availablePlayers (updatePlayerInfo b s) = availablePlayers s"
  "playerSelectionMenu (updatePlayerInfo b s) = playerSelectionMenu s"
  "controlsEnabled (updatePlayerInfo b s) = controlsEnabled s"
    by simp_all
qed

lemma updatePlayerInfo_trace:
  "playerInterface s = Some pl \<Longrightarrow> propertiesInterface s = Some p \<Longrightarrow>
   trace (updatePlayerInfo b s) = trace s @ [Poll p]"
  by (simp add: poll_unfold)

text \<open>The state model after a poll depends on the state model before it, the Properties
  interface and the bus, and on nothing else of the controller.\<close>

lemma stateModel_updatePlayerInfo_cong:
  assumes "playerInterface s = Some pl" "propertiesInterface s = Some p"
    and "playerInterface t = Some pl'" "propertiesInterface t = Some p"
    and "stateModel s = stateModel t"
  shows "stateModel (updatePlayerInfo b s) = stateModel (updatePlayerInfo b t)"
proof -
  have eqs: "currentPlayer s = currentPlayer t" "currentTitle s = currentTitle t"
    "currentArtist s = currentArtist t" "currentAlbum s = currentAlbum t"
    "playbackStatus s = playbackStatus t" "positionMs s = positionMs t"
    "durationMs s = durationMs t" "hasPosition s = hasPosition t"
    using assms(5) by (simp_all add: stateModel_def)
  show ?thesis
    using assms(1-4) eqs by (simp add: poll_unfold stateModel_def cong: option.case_cong)
qed

subsection \<open>Connecting and disconnecting\<close>

lemma disconnectFromPlayer_idem:
  "disconnectFromPlayer (disconnectFromPlayer s) = disconnectFromPlayer s"
  by (simp add: disconnectFromPlayer_def)

lemma stateModel_disconnectFromPlayer: "stateModel (disconnectFromPlayer s) = emptyModel"
  by (simp add: disconnectFromPlayer_def stateModel_def emptyModel_def)

lemma disconnectFromPlayer_handles:
  "playerInterface (disconnectFromPlayer s) = None"
  "propertiesInterface (disconnectFromPlayer s) = None"
  "currentPlayer (disconnectFromPlayer s) = []"
  by (simp_all add: disconnectFromPlayer_def)

lemma connectToPlayer_invalid:
  "\<not> player_valid b x \<Longrightarrow> connectToPlayer b x s = disconnectFromPlayer s"
  by (simp add: connectToPlayer_def disconnectFromPlayer_def Let_def)

lemma connectToPlayer_valid:
  "player_valid b x \<Longrightarrow> connectToPlayer b x s = updatePlayerInfo b (bindTo b x s)"
  by (simp add: connectToPlayer_def bindTo_def Let_def)

lemma bindTo_fields:
  "playerInterface (bindTo b x s) = Some x"
  "propertiesInterface (bindTo b x s) = Some x"
  "currentPlayer (bindTo b x s) = x"
  "trace (bindTo b x s) = trace s"
  "stateModel (bindTo b x s) = stateModel (boundTo x)"
  by (simp_all add: bindTo_def updateAvailablePlayers_def disconnectFromPlayer_def Let_def
      stateModel_def boundTo_def initial_def split: option.splits)


lemma usToMs_song: "usToMs 200001000 = 200001" "usToMs 61500999 = 61500"
  by (simp_all add: usToMs_def sdiv64_def signed_divide_int_def)

text \<open>
  Claim C5. When the Player interface made by \<^verbatim>\<open>connectToPlayer\<close> is not valid, the result
  is the disconnected state: both pointers null and the state model empty, nothing of the
  attempted connection left. When it is valid, both interfaces are bound to the service, the
  service is the current player, exactly one poll went out, and the state model is what
  that poll makes of an empty one.
\<close>

theorem connectToPlayer_outcome:
  "(\<not> player_valid b x \<longrightarrow>
      connectToPlayer b x s = disconnectFromPlayer s
      \<and> \<not> connected (connectToPlayer b x s)
      \<and> propertiesInterface (connectToPlayer b x s) = None
      \<and> stateModel (connectToPlayer b x s) = emptyModel)
   \<and> (player_valid b x \<longrightarrow>
      connected (connectToPlayer b x s)
      \<and> playerInterface (connectToPlayer b x s) = Some x
      \<and> propertiesInterface (connectToPlayer b x s) = Some x
      \<and> currentPlayer (connectToPlayer b x s) = x
      \<and> trace (connectToPlayer b x s) = trace s @ [Poll x]
      \<and> stateModel (connectToPlayer b x s) = stateModel (updatePlayerInfo b (boundTo x)))"
proof (intro conjI impI)
  assume inv: "\<not> player_valid b x"
  show "connectToPlayer b x s = disconnectFromPlayer s"
    using inv by (rule connectToPlayer_invalid)
  show "\<not> connected (connectToPlayer b x s)"
    using inv by (simp add: connectToPlayer_invalid connected_def disconnectFromPlayer_handles)
  show "propertiesInterface (connectToPlayer b x s) = None"
    using inv by (simp add: connectToPlayer_invalid disconnectFromPlayer_handles)
  show "stateModel (connectToPlayer b x s) = emptyModel"
    using inv by (simp add: connectToPlayer_invalid stateModel_disconnectFromPlayer)
next
  assume val: "player_valid b x"
  have c: "connectToPlayer b x s = updatePlayerInfo b (bindTo b x s)"
    using val by (rule connectToPlayer_valid)
  show "connected (connectToPlayer b x s)"
    by (simp add: c connected_def updatePlayerInfo_frame bindTo_fields)
  show "playerInterface (connectToPlayer b x s) = Some x"
    by (simp add: c updatePlayerInfo_frame bindTo_fields)
  show "propertiesInterface (connectToPlayer b x s) = Some x"
    by (simp add: c updatePlayerInfo_frame bindTo_fields)
  show "currentPlayer (connectToPlayer b x s) = x"
    by (simp add: c updatePlayerInfo_frame bindTo_fields)
  show "trace (connectToPlayer b x s) = trace s @ [Poll x]"
    unfolding c
    using updatePlayerInfo_trace [of "bindTo b x s" x x b] by (simp add: bindTo_fields)
  show "stateModel (connectToPlayer b x s) = stateModel (updatePlayerInfo b (boundTo x))"
    unfolding c
    by (rule stateModel_updatePlayerInfo_cong [where pl = x and pl' = x and p = x])
      (simp_all add: bindTo_fields, simp_all add: boundTo_def)
qed

theorem connectToPlayer_outcome_witness:
  "\<not> player_valid silentBus vlc
   \<and> connectToPlayer silentBus vlc pausedOnVlc = disconnectFromPlayer pausedOnVlc
   \<and> stateModel (connectToPlayer silentBus vlc pausedOnVlc) = emptyModel
   \<and> player_valid (playersBus [(vlc, ''Playing'')]) vlc
   \<and> playerInterface (connectToPlayer (playersBus [(vlc, ''Playing'')]) vlc initial) = Some vlc
   \<and> trace (connectToPlayer (playersBus [(vlc, ''Playing'')]) vlc initial) = [Poll vlc]
   \<and> stateModel (connectToPlayer (playersBus [(vlc, ''Playing'')]) vlc initial) =
       \<lparr>activePlayer = vlc, title = ''Song'', artist = ''Ann, Bob'', album = ''Album'',
        status = Playing, position = 61500, duration = 200001, positionKnown = True\<rparr>"
proof -
  have poll: "stateModel (updatePlayerInfo (playersBus [(vlc, ''Playing'')]) (boundTo vlc)) =
       \<lparr>activePlayer = vlc, title = ''Song'', artist = ''Ann, Bob'', album = ''Album'',
        status = Playing, position = 61500, duration = 200001, positionKnown = True\<rparr>"
    by (simp add: poll_unfold boundTo_def initial_def stateModel_def playersBus_def song_def
        usToMs_song parsePlaybackStatus_def word_sless_alt)
  have a: "\<not> player_valid silentBus vlc" by (simp add: silentBus_def)
  have b: "player_valid (playersBus [(vlc, ''Playing'')]) vlc" by (simp add: playersBus_def)
  have tr: "trace initial = []" by (simp add: initial_def)
  show ?thesis
    using connectToPlayer_outcome [of silentBus vlc pausedOnVlc]
      connectToPlayer_outcome [of "playersBus [(vlc, ''Playing'')]" vlc initial] a b poll tr
    by (simp add: stateModel_disconnectFromPlayer)
qed

text \<open>
  Claim C6. In a connected controller \<^verbatim>\<open>updatePlayerInfo\<close> always returns a state, and each
  group of fields follows its own sub-query alone: the status is the parsed reply or, when
  the reply is not valid, the old status; title, artist, album, duration and has-position
  come from the metadata reply or stay as they were; the position comes from the position
  reply, asked for when the track has a position, or stays as it was.
\<close>

theorem updatePlayerInfo_best_effort:
  assumes "playerInterface s = Some pl" and "propertiesInterface s = Some p"
  shows "playbackStatus (updatePlayerInfo b s) =
           (case get_PlaybackStatus b p of
              None \<Rightarrow> playbackStatus s
            | Some reply \<Rightarrow> parsePlaybackStatus reply)
       \<and> currentTitle (updatePlayerInfo b s) =
           (case get_Metadata b p of None \<Rightarrow> currentTitle s | Some m \<Rightarrow> xesam_title m)
       \<and> currentArtist (updatePlayerInfo b s) =
           (case get_Metadata b p of
              None \<Rightarrow> currentArtist s
            | Some m \<Rightarrow> joinStrings '', '' (xesam_artist m))
       \<and> currentAlbum (updatePlayerInfo b s) =
           (case get_Metadata b p of None \<Rightarrow> currentAlbum s | Some m \<Rightarrow> xesam_album m)
       \<and> durationMs (updatePlayerInfo b s) =
           (case get_Metadata b p of
              None \<Rightarrow> durationMs s
            | Some m \<Rightarrow> usToMs (mpris_length m))
       \<and> hasPosition (updatePlayerInfo b s) =
           (case get_Metadata b p of
              None \<Rightarrow> hasPosition s
            | Some m \<Rightarrow> 0 <s usToMs (mpris_length m))
       \<and> positionMs (updatePlayerInfo b s) =
           (if hasPosition (updatePlayerInfo b s)
            then (case get_Position b p of None \<Rightarrow> positionMs s | Some u \<Rightarrow> usToMs u)
            else positionMs s)
       \<and> currentPlayer (updatePlayerInfo b s) = currentPlayer s
       \<and> playerInterface (updatePlayerInfo b s) = Some pl
       \<and> propertiesInterface (updatePlayerInfo b s) = Some p"
  using assms by (simp add: poll_unfold cong: option.case_cong)

theorem updatePlayerInfo_best_effort_witness:
  "playerInterface pausedOnVlc = Some vlc \<and> propertiesInterface pausedOnVlc = Some vlc
   \<and> get_PlaybackStatus statusFailBus vlc = None
   \<and> playbackStatus (updatePlayerInfo statusFailBus pausedOnVlc) = Paused
   \<and> currentTitle (updatePlayerInfo statusFailBus pausedOnVlc) = ''Song''
   \<and> durationMs (updatePlayerInfo statusFailBus pausedOnVlc) = 200001
   \<and> positionMs (updatePlayerInfo statusFailBus pausedOnVlc) = 61500
   \<and> get_Position silentBus vlc = None \<and> get_Metadata silentBus vlc = None
   \<and> positionMs (updatePlayerInfo silentBus pausedOnVlc) = 1000
   \<and> currentTitle (updatePlayerInfo silentBus pausedOnVlc) = ''Old''
   \<and> durationMs (updatePlayerInfo silentBus pausedOnVlc) = 200001"
  using updatePlayerInfo_best_effort [of pausedOnVlc vlc vlc statusFailBus]
    updatePlayerInfo_best_effort [of pausedOnVlc vlc vlc silentBus]
  by (simp add: pausedOnVlc_def initial_def statusFailBus_def playersBus_def silentBus_def
      song_def usToMs_song word_sless_alt)

subsection \<open>Selection among several candidates\<close>

lemma connectToPlayer_trace:
  "trace (connectToPlayer b x s) = trace s @ (if player_valid b x then [Poll x] else [])"
proof (cases "player_valid b x")
  case True
  then show ?thesis
    using updatePlayerInfo_trace [of "bindTo b x s" x x b]
    by (simp add: connectToPlayer_valid bindTo_fields)
next
  case False
  then show ?thesis
    by (simp add: connectToPlayer_invalid disconnectFromPlayer_def)
qed

lemma connectToPlayer_currentPlayer:
  "currentPlayer (connectToPlayer b x s) = (if player_valid b x then x else [])"
  "playerInterface (connectToPlayer b x s) = (if player_valid b x then Some x else None)"
  "propertiesInterface (connectToPlayer b x s) = (if player_valid b x then Some x else None)"
  by (simp_all add: connectToPlayer_valid connectToPlayer_invalid updatePlayerInfo_frame
      bindTo_fields disconnectFromPlayer_handles)

lemma probes_append: "probes (t @ u) = probes t @ probes u"
  by (induction t rule: probes.induct) simp_all

lemma probes_map_Probe: "probes (map Probe xs) = xs"
  by (induction xs) simp_all

lemma connectToBestPlayer_many:
  "1 < length (availablePlayers s) \<Longrightarrow>
   connectToBestPlayer b s = bestPlayerLoop b (availablePlayers s) [] Stopped s"
  by (cases "availablePlayers s"; cases "tl (availablePlayers s)")
    (auto simp add: connectToBestPlayer_def)

lemma bestPlayerLoop_playing:
  assumes "\<forall>x\<in>set before. probeStatus b x \<noteq> Some Playing"
    and "probeStatus b winner = Some Playing"
  shows "bestPlayerLoop b (before @ winner # later) bestPlayer bestStatus s =
           connectToPlayer b winner (s\<lparr>trace := trace s @ map Probe (before @ [winner])\<rparr>)"
  using assms(1)
proof (induction before arbitrary: bestPlayer bestStatus s)
  case Nil
  show ?case using assms(2) by (simp add: Let_def)
next
  case (Cons a before)
  then have a: "probeStatus b a \<noteq> Some Playing"
    and rest: "\<forall>x\<in>set before. probeStatus b x \<noteq> Some Playing" by simp_all
  show ?case
  proof (cases "probeStatus b a")
    case None
    then show ?thesis by (simp add: Let_def Cons.IH [OF rest])
  next
    case (Some st)
    with a have "st \<noteq> Playing" by simp
    with Some show ?thesis by (simp add: Let_def Cons.IH [OF rest])
  qed
qed

text \<open>
  Claim C1. With more than one candidate, of which \<open>winner\<close> is the first in list order
  whose probe says \<open>Playing\<close>, \<^verbatim>\<open>connectToBestPlayer\<close> is \<^verbatim>\<open>connectToPlayer\<close> on \<open>winner\<close>,
  reached after probing the candidates up to and including \<open>winner\<close> and no other: the
  candidates after it are neither probed nor do they bear on the result. When the Player
  interface binds, \<open>winner\<close> is the current player.
\<close>

theorem first_playing_wins:
  assumes "1 < length (availablePlayers s)"
    and "availablePlayers s = before @ winner # later"
    and "\<forall>x\<in>set before. probeStatus b x \<noteq> Some Playing"
    and "probeStatus b winner = Some Playing"
  shows "connectToBestPlayer b s =
           connectToPlayer b winner (s\<lparr>trace := trace s @ map Probe (before @ [winner])\<rparr>)
       \<and> probes (trace (connectToBestPlayer b s)) = probes (trace s) @ before @ [winner]
       \<and> (player_valid b winner \<longrightarrow>
            currentPlayer (connectToBestPlayer b s) = winner
            \<and> playerInterface (connectToBestPlayer b s) = Some winner)"
proof -
  have eq: "connectToBestPlayer b s =
           connectToPlayer b winner (s\<lparr>trace := trace s @ map Probe (before @ [winner])\<rparr>)"
    using bestPlayerLoop_playing [OF assms(3,4), of later "[]" Stopped s] assms(1,2)
    by (simp add: connectToBestPlayer_many)
  show ?thesis
    unfolding eq
    by (simp add: connectToPlayer_trace connectToPlayer_currentPlayer probes_append
        probes_map_Probe)
qed

lemma bestPlayerLoop_paused:
  assumes "\<forall>x\<in>set xs. probeStatus b x \<noteq> Some Playing" and "bestPlayer \<noteq> []"
  shows "bestPlayerLoop b xs bestPlayer Paused s =
           connectToPlayer b bestPlayer (s\<lparr>trace := trace s @ map Probe xs\<rparr>)"
  using assms(1)
proof (induction xs arbitrary: s)
  case Nil
  show ?case using assms(2) by simp
next
  case (Cons a xs)
  then have a: "probeStatus b a \<noteq> Some Playing"
    and rest: "\<forall>x\<in>set xs. probeStatus b x \<noteq> Some Playing" by simp_all
  show ?case
  proof (cases "probeStatus b a")
    case None
    then show ?thesis by (simp add: Let_def Cons.IH [OF rest])
  next
    case (Some st)
    with a have "st \<noteq> Playing" by simp
    with Some assms(2) show ?thesis by (simp add: Let_def Cons.IH [OF rest])
  qed
qed

lemma bestPlayerLoop_stopped:
  assumes "\<forall>x\<in>set xs. probeStatus b x \<noteq> Some Playing" and "\<forall>x\<in>set xs. x \<noteq> []"
    and "bestPlayer \<noteq> []"
  shows "bestPlayerLoop b xs bestPlayer Stopped s =
           connectToPlayer b
             (case List.find (\<lambda>x. probeStatus b x = Some Paused) xs of
                Some p \<Rightarrow> p
              | None \<Rightarrow> bestPlayer)
             (s\<lparr>trace := trace s @ map Probe xs\<rparr>)"
  using assms(1,2)
proof (induction xs arbitrary: s)
  case Nil
  show ?case using assms(3) by simp
next
  case (Cons a xs)
  then have a: "probeStatus b a \<noteq> Some Playing" and ne: "a \<noteq> []"
    and rest: "\<forall>x\<in>set xs. probeStatus b x \<noteq> Some Playing" "\<forall>x\<in>set xs. x \<noteq> []"
    by simp_all
  show ?case
  proof (cases "probeStatus b a")
    case None
    then show ?thesis by (simp add: Let_def Cons.IH [OF rest])
  next
    case (Some st)
    show ?thesis
    proof (cases st)
      case Playing
      with Some a show ?thesis by simp
    next
      case Paused
      with Some ne show ?thesis by (simp add: Let_def bestPlayerLoop_paused [OF rest(1)])
    next
      case Stopped
      with Some assms(3) show ?thesis by (simp add: Let_def Cons.IH [OF rest])
    qed
  qed
qed

lemma bestPlayerLoop_none:
  assumes "\<forall>x\<in>set xs. probeStatus b x \<noteq> Some Playing" and "\<forall>x\<in>set xs. x \<noteq> []"
  shows "bestPlayerLoop b xs [] Stopped s =
           (case List.find (\<lambda>x. probeStatus b x = Some Paused) xs of
              Some p \<Rightarrow> connectToPlayer b p (s\<lparr>trace := trace s @ map Probe xs\<rparr>)
            | None \<Rightarrow>
                (case List.find (\<lambda>x. probeStatus b x = Some Stopped) xs of
                   Some q \<Rightarrow> connectToPlayer b q (s\<lparr>trace := trace s @ map Probe xs\<rparr>)
                 | None \<Rightarrow> s\<lparr>trace := trace s @ map Probe xs\<rparr>))"
  using assms
proof (induction xs arbitrary: s)
  case Nil
  show ?case by simp
next
  case (Cons a xs)
  then have a: "probeStatus b a \<noteq> Some Playing" and ne: "a \<noteq> []"
    and rest: "\<forall>x\<in>set xs. probeStatus b x \<noteq> Some Playing" "\<forall>x\<in>set xs. x \<noteq> []"
    by simp_all
  show ?case
  proof (cases "probeStatus b a")
    case None
    then show ?thesis by (simp add: Let_def Cons.IH [OF rest] split: option.splits)
  next
    case (Some st)
    show ?thesis
    proof (cases st)
      case Playing
      with Some a show ?thesis by simp
    next
      case Paused
      with Some ne show ?thesis by (simp add: Let_def bestPlayerLoop_paused [OF rest(1)] split: option.splits)
    next
      case Stopped
      with Some ne show ?thesis
        by (simp add: Let_def bestPlayerLoop_stopped [OF rest] split: option.splits)
    qed
  qed
qed

lemma prefix_mprisPrefix_nonempty: "prefix mprisPrefix x \<Longrightarrow> x \<noteq> []"
  by (auto simp add: mprisPrefix_def)

text \<open>
  Claim C2. With more than one candidate from the registry (every name carries the MPRIS
  prefix) and none probed \<open>Playing\<close>, \<^verbatim>\<open>connectToBestPlayer\<close> probes every candidate and
  connects to the first one probed \<open>Paused\<close>; when there is none, to the first one probed
  \<open>Stopped\<close>; when every probe fails it connects to nothing and leaves the controller as
  it was.
\<close>

theorem no_playing_fallback:
  assumes "1 < length (availablePlayers s)"
    and "\<forall>x\<in>set (availablePlayers s). prefix mprisPrefix x"
    and "\<forall>x\<in>set (availablePlayers s). probeStatus b x \<noteq> Some Playing"
  shows "connectToBestPlayer b s =
           (case List.find (\<lambda>x. probeStatus b x = Some Paused) (availablePlayers s) of
              Some p \<Rightarrow>
                connectToPlayer b p (s\<lparr>trace := trace s @ map Probe (availablePlayers s)\<rparr>)
            | None \<Rightarrow>
                (case List.find (\<lambda>x. probeStatus b x = Some Stopped) (availablePlayers s) of
                   Some q \<Rightarrow>
                     connectToPlayer b q
                       (s\<lparr>trace := trace s @ map Probe (availablePlayers s)\<rparr>)
                 | None \<Rightarrow> s\<lparr>trace := trace s @ map Probe (availablePlayers s)\<rparr>))"
proof -
  have ne: "\<forall>x\<in>set (availablePlayers s). x \<noteq> []"
    using assms(2) prefix_mprisPrefix_nonempty by blast
  show ?thesis
    using bestPlayerLoop_none [OF assms(3) ne, of s] assms(1)
    by (simp add: connectToBestPlayer_many)
qed


subsection \<open>The concrete buses and states\<close>

lemma names_distinct:
  "vlc \<noteq> mpv" "mpv \<noteq> vlc" "vlc \<noteq> spotify" "spotify \<noteq> vlc" "mpv \<noteq> spotify" "spotify \<noteq> mpv"
  by (simp_all add: vlc_def mpv_def spotify_def)

lemma names_prefixed: "prefix mprisPrefix vlc" "prefix mprisPrefix mpv" "prefix mprisPrefix spotify"
  by (simp_all add: vlc_def mpv_def spotify_def mprisPrefix_def)

lemma playersBus_fields:
  "registeredServiceNames (playersBus ps) = Some (map fst ps)"
  "properties_valid (playersBus ps) x = (map_of ps x \<noteq> None)"
  "player_valid (playersBus ps) x = (map_of ps x \<noteq> None)"
  "get_PlaybackStatus (playersBus ps) x = map_of ps x"
  "get_Metadata (playersBus ps) x = (if map_of ps x \<noteq> None then Some song else None)"
  "get_Position (playersBus ps) x = (if map_of ps x \<noteq> None then Some 61500999 else None)"
  "get_Identity (playersBus ps) x = None"
  "get_DesktopEntry (playersBus ps) x = None"
  "toUpper (playersBus ps) = asciiUpper"
  by (simp_all add: playersBus_def)

lemma probeStatus_playersBus:
  "probeStatus (playersBus ps) x = map_option parsePlaybackStatus (map_of ps x)"
  by (cases "map_of ps x") (simp_all add: probeStatus_def playersBus_fields)

lemma probeStatus_silentBus: "probeStatus silentBus x = None"
  by (simp add: probeStatus_def silentBus_def)

lemma parsePlaybackStatus_words:
  "parsePlaybackStatus ''Playing'' = Playing"
  "parsePlaybackStatus ''Paused'' = Paused"
  "parsePlaybackStatus ''Stopped'' = Stopped"
  by (simp_all add: parsePlaybackStatus_def)

lemma idle3_fields: "availablePlayers idle3 = [vlc, mpv, spotify]" "trace idle3 = []"
  by (simp_all add: idle3_def initial_def)

lemmas probe_eval =
  probeStatus_playersBus probeStatus_silentBus parsePlaybackStatus_words names_distinct

theorem first_playing_wins_witness:
  "1 < length (availablePlayers idle3)
   \<and> availablePlayers idle3 = [vlc] @ mpv # [spotify]
   \<and> probeStatus secondPlays vlc = Some Stopped
   \<and> probeStatus secondPlays mpv = Some Playing
   \<and> probeStatus secondPlays spotify = Some Playing
   \<and> player_valid secondPlays mpv
   \<and> currentPlayer (connectToBestPlayer secondPlays idle3) = mpv
   \<and> probes (trace (connectToBestPlayer secondPlays idle3)) = [vlc, mpv]"
proof -
  have h1: "1 < length (availablePlayers idle3)" by (simp add: idle3_fields)
  have h2: "availablePlayers idle3 = [vlc] @ mpv # [spotify]" by (simp add: idle3_fields)
  have h3: "\<forall>x\<in>set [vlc]. probeStatus secondPlays x \<noteq> Some Playing"
    by (simp add: secondPlays_def probe_eval)
  have h4: "probeStatus secondPlays mpv = Some Playing"
    by (simp add: secondPlays_def probe_eval)
  have h5: "probeStatus secondPlays spotify = Some Playing"
    by (simp add: secondPlays_def probe_eval)
  have h6: "player_valid secondPlays mpv"
    by (simp add: secondPlays_def playersBus_fields names_distinct)
  from first_playing_wins [OF h1 h2 h3 h4] h6
  have c: "currentPlayer (connectToBestPlayer secondPlays idle3) = mpv" by blast
  from first_playing_wins [OF h1 h2 h3 h4]
  have "probes (trace (connectToBestPlayer secondPlays idle3)) =
          probes (trace idle3) @ [vlc] @ [mpv]" by blast
  then have p: "probes (trace (connectToBestPlayer secondPlays idle3)) = [vlc, mpv]"
    by (simp add: idle3_fields)
  have h0: "probeStatus secondPlays vlc = Some Stopped"
    by (simp add: secondPlays_def probe_eval)
  show ?thesis using h0 h1 h2 h4 h5 h6 c p by blast
qed

theorem no_playing_fallback_witness:
  "1 < length (availablePlayers idle3)
   \<and> availablePlayers idle3 = [vlc, mpv, spotify]
   \<and> prefix mprisPrefix vlc \<and> prefix mprisPrefix mpv \<and> prefix mprisPrefix spotify
   \<and> probeStatus nobodyPlays vlc = Some Stopped
   \<and> probeStatus nobodyPlays mpv = Some Paused
   \<and> probeStatus nobodyPlays spotify = Some Paused
   \<and> probeStatus silentBus vlc = None \<and> probeStatus silentBus mpv = None
   \<and> probeStatus silentBus spotify = None
   \<and> connectToBestPlayer nobodyPlays idle3 =
       connectToPlayer nobodyPlays mpv (idle3\<lparr>trace := [Probe vlc, Probe mpv, Probe spotify]\<rparr>)
   \<and> connectToBestPlayer silentBus idle3 =
       idle3\<lparr>trace := [Probe vlc, Probe mpv, Probe spotify]\<rparr>"
proof -
  have h1: "1 < length (availablePlayers idle3)" by (simp add: idle3_fields)
  have h2: "\<forall>x\<in>set (availablePlayers idle3). prefix mprisPrefix x"
    by (simp add: idle3_fields names_prefixed)
  have h3: "\<forall>x\<in>set (availablePlayers idle3). probeStatus nobodyPlays x \<noteq> Some Playing"
    by (simp add: idle3_fields nobodyPlays_def probe_eval)
  have h4: "\<forall>x\<in>set (availablePlayers idle3). probeStatus silentBus x \<noteq> Some Playing"
    by (simp add: probe_eval)
  have a: "connectToBestPlayer nobodyPlays idle3 =
       connectToPlayer nobodyPlays mpv (idle3\<lparr>trace := [Probe vlc, Probe mpv, Probe spotify]\<rparr>)"
    using no_playing_fallback [OF h1 h2 h3]
    by (simp add: idle3_fields nobodyPlays_def probe_eval)
  have b: "connectToBestPlayer silentBus idle3 =
       idle3\<lparr>trace := [Probe vlc, Probe mpv, Probe spotify]\<rparr>"
    using no_playing_fallback [OF h1 h2 h4]
    by (simp add: idle3_fields probe_eval)
  have p: "probeStatus nobodyPlays vlc = Some Stopped" "probeStatus nobodyPlays mpv = Some Paused"
    "probeStatus nobodyPlays spotify = Some Paused"
    by (simp_all add: nobodyPlays_def probe_eval)
  show ?thesis
    using h1 p a b by (simp add: idle3_fields names_prefixed probeStatus_silentBus)
qed

lemma betterPlayerLoop_no_playing:
  assumes "\<forall>x\<in>set xs. x \<noteq> currentPlayer s \<longrightarrow> probeStatus b x \<noteq> Some Playing"
  shows "betterPlayerLoop b xs s = s\<lparr>trace := trace s @ map Probe (peers s xs)\<rparr>"
  using assms
proof (induction xs arbitrary: s)
  case Nil
  show ?case by (simp add: peers_def)
next
  case (Cons a xs)
  show ?case
  proof (cases "a = currentPlayer s")
    case True
    with Cons show ?thesis by (simp add: peers_def)
  next
    case False
    with Cons.prems have a: "probeStatus b a \<noteq> Some Playing" by simp
    have rest: "\<forall>x\<in>set xs. x \<noteq> currentPlayer (s\<lparr>trace := trace s @ [Probe a]\<rparr>) \<longrightarrow>
        probeStatus b x \<noteq> Some Playing"
      using Cons.prems by simp
    show ?thesis
    proof (cases "probeStatus b a")
      case None
      with False show ?thesis by (simp add: Let_def Cons.IH [OF rest] peers_def)
    next
      case (Some st)
      with a have "st \<noteq> Playing" by simp
      with Some False show ?thesis by (simp add: Let_def Cons.IH [OF rest] peers_def)
    qed
  qed
qed

lemma betterPlayerLoop_playing:
  assumes "\<forall>x\<in>set before. x \<noteq> currentPlayer s \<longrightarrow> probeStatus b x \<noteq> Some Playing"
    and "peer \<noteq> currentPlayer s" and "probeStatus b peer = Some Playing"
  shows "betterPlayerLoop b (before @ peer # later) s =
           connectToPlayer b peer (s\<lparr>trace := trace s @ map Probe (peers s (before @ [peer]))\<rparr>)"
  using assms
proof (induction before arbitrary: s)
  case Nil
  then show ?case by (simp add: Let_def peers_def)
next
  case (Cons a before)
  show ?case
  proof (cases "a = currentPlayer s")
    case True
    with Cons show ?thesis by (simp add: peers_def)
  next
    case False
    with Cons.prems have a: "probeStatus b a \<noteq> Some Playing" by simp
    have rest: "\<forall>x\<in>set before. x \<noteq> currentPlayer (s\<lparr>trace := trace s @ [Probe a]\<rparr>) \<longrightarrow>
        probeStatus b x \<noteq> Some Playing"
      "peer \<noteq> currentPlayer (s\<lparr>trace := trace s @ [Probe a]\<rparr>)"
      using Cons.prems by simp_all
    show ?thesis
    proof (cases "probeStatus b a")
      case None
      with False show ?thesis
        by (simp add: Let_def Cons.IH [OF rest Cons.prems(3)] peers_def)
    next
      case (Some st)
      with a have "st \<noteq> Playing" by simp
      with Some False show ?thesis
        by (simp add: Let_def Cons.IH [OF rest Cons.prems(3)] peers_def)
    qed
  qed
qed

lemma betterPlayerLoop_probes:
  "\<exists>ys. probes (trace (betterPlayerLoop b xs s)) = probes (trace s) @ ys
        \<and> currentPlayer s \<notin> set ys \<and> set ys \<subseteq> set xs"
proof (cases "\<forall>x\<in>set xs. x \<noteq> currentPlayer s \<longrightarrow> probeStatus b x \<noteq> Some Playing")
  case True
  have "probes (trace (betterPlayerLoop b xs s)) = probes (trace s) @ peers s xs"
    by (simp add: betterPlayerLoop_no_playing [OF True] probes_append probes_map_Probe)
  moreover have "currentPlayer s \<notin> set (peers s xs)" "set (peers s xs) \<subseteq> set xs"
    by (auto simp add: peers_def)
  ultimately show ?thesis by blast
next
  case False
  then have "\<exists>x\<in>set xs. x \<noteq> currentPlayer s \<and> probeStatus b x = Some Playing" by blast
  then obtain before peer later where split: "xs = before @ peer # later"
    and peer: "peer \<noteq> currentPlayer s \<and> probeStatus b peer = Some Playing"
    and first: "\<forall>x\<in>set before. \<not> (x \<noteq> currentPlayer s \<and> probeStatus b x = Some Playing)"
    using split_list_first_prop [of xs "\<lambda>x. x \<noteq> currentPlayer s \<and> probeStatus b x = Some Playing"]
    by blast
  have first': "\<forall>x\<in>set before. x \<noteq> currentPlayer s \<longrightarrow> probeStatus b x \<noteq> Some Playing"
    using first by blast
  have "probes (trace (betterPlayerLoop b xs s)) = probes (trace s) @ peers s (before @ [peer])"
    using peer
    by (simp add: split betterPlayerLoop_playing [OF first'] connectToPlayer_trace probes_append
        probes_map_Probe)
  moreover have "currentPlayer s \<notin> set (peers s (before @ [peer]))"
    "set (peers s (before @ [peer])) \<subseteq> set xs"
    by (auto simp add: peers_def split)
  ultimately show ?thesis by blast
qed

text \<open>
  Claim C3. A timer tick is only a poll when the controller is not connected, when the
  status cached by that poll is \<open>Playing\<close>, or when at most one candidate is registered;
  \<^verbatim>\<open>checkForBetterPlayer\<close> itself does nothing when the cached status is \<open>Playing\<close>. It never
  probes the current player. When no other candidate is probed \<open>Playing\<close> (they may be
  paused, stopped or unreachable) it changes nothing but the trace of its probes; when one
  is, it connects to the first such candidate, which starts by disconnecting.
\<close>

theorem takeover_only_by_playing_peer:
  "(\<not> connected s \<or> playbackStatus (updatePlayerInfo b s) = Playing
      \<or> length (availablePlayers s) \<le> 1 \<longrightarrow>
      refreshMediaInfo b s = updatePlayerInfo b s)
   \<and> (playbackStatus s = Playing \<longrightarrow> checkForBetterPlayer b s = s)
   \<and> (\<exists>ys. probes (trace (checkForBetterPlayer b s)) = probes (trace s) @ ys
          \<and> currentPlayer s \<notin> set ys \<and> set ys \<subseteq> set (availablePlayers s))
   \<and> (playbackStatus s \<noteq> Playing
       \<and> (\<forall>x\<in>set (availablePlayers s).
            x \<noteq> currentPlayer s \<longrightarrow> probeStatus b x \<noteq> Some Playing) \<longrightarrow>
      checkForBetterPlayer b s =
        s\<lparr>trace := trace s @ map Probe (peers s (availablePlayers s))\<rparr>)
   \<and> (playbackStatus s \<noteq> Playing \<and> availablePlayers s = before @ peer # later
       \<and> (\<forall>x\<in>set before. x \<noteq> currentPlayer s \<longrightarrow> probeStatus b x \<noteq> Some Playing)
       \<and> peer \<noteq> currentPlayer s \<and> probeStatus b peer = Some Playing \<longrightarrow>
      checkForBetterPlayer b s =
        connectToPlayer b peer
          (s\<lparr>trace := trace s @ map Probe (peers s (before @ [peer]))\<rparr>))"
proof (intro conjI impI)
  assume gate: "\<not> connected s \<or> playbackStatus (updatePlayerInfo b s) = Playing
      \<or> length (availablePlayers s) \<le> 1"
  show "refreshMediaInfo b s = updatePlayerInfo b s"
  proof (cases "playerInterface s")
    case None
    then show ?thesis by (simp add: refreshMediaInfo_def updatePlayerInfo_disconnected)
  next
    case (Some pl)
    with gate show ?thesis
      by (auto simp add: refreshMediaInfo_def Let_def connected_def updatePlayerInfo_frame)
  qed
next
  assume "playbackStatus s = Playing"
  then show "checkForBetterPlayer b s = s" by (simp add: checkForBetterPlayer_def)
next
  show "\<exists>ys. probes (trace (checkForBetterPlayer b s)) = probes (trace s) @ ys
          \<and> currentPlayer s \<notin> set ys \<and> set ys \<subseteq> set (availablePlayers s)"
  proof (cases "playbackStatus s = Playing")
    case True
    then have "probes (trace (checkForBetterPlayer b s)) = probes (trace s) @ []"
      by (simp add: checkForBetterPlayer_def)
    then show ?thesis by (intro exI [of _ "[]"]) simp
  next
    case False
    then show ?thesis
      using betterPlayerLoop_probes [of b "availablePlayers s" s]
      by (simp add: checkForBetterPlayer_def)
  qed
next
  assume "playbackStatus s \<noteq> Playing
       \<and> (\<forall>x\<in>set (availablePlayers s).
            x \<noteq> currentPlayer s \<longrightarrow> probeStatus b x \<noteq> Some Playing)"
  then show "checkForBetterPlayer b s =
        s\<lparr>trace := trace s @ map Probe (peers s (availablePlayers s))\<rparr>"
    by (simp add: checkForBetterPlayer_def betterPlayerLoop_no_playing)
next
  assume h: "playbackStatus s \<noteq> Playing \<and> availablePlayers s = before @ peer # later
       \<and> (\<forall>x\<in>set before. x \<noteq> currentPlayer s \<longrightarrow> probeStatus b x \<noteq> Some Playing)
       \<and> peer \<noteq> currentPlayer s \<and> probeStatus b peer = Some Playing"
  then have "betterPlayerLoop b (before @ peer # later) s =
        connectToPlayer b peer
          (s\<lparr>trace := trace s @ map Probe (peers s (before @ [peer]))\<rparr>)"
    by (intro betterPlayerLoop_playing) simp_all
  with h show "checkForBetterPlayer b s =
        connectToPlayer b peer
          (s\<lparr>trace := trace s @ map Probe (peers s (before @ [peer]))\<rparr>)"
    by (simp add: checkForBetterPlayer_def)
qed


lemma pausedOnVlc_fields:
  "playerInterface pausedOnVlc = Some vlc" "propertiesInterface pausedOnVlc = Some vlc"
  "currentPlayer pausedOnVlc = vlc" "playbackStatus pausedOnVlc = Paused"
  "availablePlayers pausedOnVlc = [vlc, mpv]" "trace pausedOnVlc = []"
  "hasPosition pausedOnVlc" "durationMs pausedOnVlc = 200001"
  by (simp_all add: pausedOnVlc_def initial_def)

theorem takeover_only_by_playing_peer_witness:
  "playbackStatus pausedOnVlc \<noteq> Playing
   \<and> availablePlayers pausedOnVlc = [vlc] @ mpv # []
   \<and> mpv \<noteq> currentPlayer pausedOnVlc
   \<and> probeStatus peerPlays mpv = Some Playing
   \<and> checkForBetterPlayer peerPlays pausedOnVlc =
       connectToPlayer peerPlays mpv (pausedOnVlc\<lparr>trace := [Probe mpv]\<rparr>)
   \<and> currentPlayer (checkForBetterPlayer peerPlays pausedOnVlc) = mpv
   \<and> probeStatus peerPaused mpv = Some Paused
   \<and> checkForBetterPlayer peerPaused pausedOnVlc = pausedOnVlc\<lparr>trace := [Probe mpv]\<rparr>
   \<and> connected pausedOnVlc \<and> 1 < length (availablePlayers pausedOnVlc)
   \<and> playbackStatus (updatePlayerInfo bothPlay pausedOnVlc) = Playing
   \<and> probeStatus bothPlay mpv = Some Playing
   \<and> refreshMediaInfo bothPlay pausedOnVlc = updatePlayerInfo bothPlay pausedOnVlc
   \<and> playbackStatus (pausedOnVlc\<lparr>playbackStatus := Playing\<rparr>) = Playing
   \<and> checkForBetterPlayer peerPlays (pausedOnVlc\<lparr>playbackStatus := Playing\<rparr>) =
       pausedOnVlc\<lparr>playbackStatus := Playing\<rparr>"
proof -
  have s1: "playbackStatus pausedOnVlc \<noteq> Playing" by (simp add: pausedOnVlc_fields)
  have s2: "availablePlayers pausedOnVlc = [vlc] @ mpv # []" by (simp add: pausedOnVlc_fields)
  have s3: "mpv \<noteq> currentPlayer pausedOnVlc" by (simp add: pausedOnVlc_fields names_distinct)
  have s4: "connected pausedOnVlc" by (simp add: connected_def pausedOnVlc_fields)
  have s5: "1 < length (availablePlayers pausedOnVlc)" by (simp add: pausedOnVlc_fields)
  have pe: "peers pausedOnVlc [vlc, mpv] = [mpv]"
    by (simp add: peers_def pausedOnVlc_fields names_distinct)
  have p1: "probeStatus peerPlays mpv = Some Playing" by (simp add: peerPlays_def probe_eval)
  have p2: "\<forall>x\<in>set [vlc]. x \<noteq> currentPlayer pausedOnVlc \<longrightarrow> probeStatus peerPlays x \<noteq> Some Playing"
    by (simp add: pausedOnVlc_fields)
  have p3: "probeStatus peerPaused mpv = Some Paused" by (simp add: peerPaused_def probe_eval)
  have p4: "\<forall>x\<in>set (availablePlayers pausedOnVlc).
      x \<noteq> currentPlayer pausedOnVlc \<longrightarrow> probeStatus peerPaused x \<noteq> Some Playing"
    by (simp add: pausedOnVlc_fields peerPaused_def probe_eval)
  have p5: "probeStatus bothPlay mpv = Some Playing" by (simp add: bothPlay_def probe_eval)
  have v: "player_valid peerPlays mpv"
    by (simp add: peerPlays_def playersBus_fields names_distinct)
  have poll: "playbackStatus (updatePlayerInfo bothPlay pausedOnVlc) = Playing"
    using updatePlayerInfo_connected [of pausedOnVlc vlc vlc bothPlay]
    by (simp add: pausedOnVlc_fields bothPlay_def playersBus_fields parsePlaybackStatus_words
        Let_def pollStatus_fields pollMetadata_fields pollPosition_fields)
  from takeover_only_by_playing_peer [of pausedOnVlc peerPlays "[vlc]" mpv "[]"] s1 s2 s3 p1 p2
  have a: "checkForBetterPlayer peerPlays pausedOnVlc =
       connectToPlayer peerPlays mpv (pausedOnVlc\<lparr>trace := [Probe mpv]\<rparr>)"
    by (simp add: pe pausedOnVlc_fields)
  have a': "currentPlayer (checkForBetterPlayer peerPlays pausedOnVlc) = mpv"
    using v by (simp add: a connectToPlayer_currentPlayer)
  from takeover_only_by_playing_peer [of pausedOnVlc peerPaused] s1 p4
  have b: "checkForBetterPlayer peerPaused pausedOnVlc = pausedOnVlc\<lparr>trace := [Probe mpv]\<rparr>"
    by (simp add: pe pausedOnVlc_fields)
  from takeover_only_by_playing_peer [of pausedOnVlc bothPlay] poll
  have c: "refreshMediaInfo bothPlay pausedOnVlc = updatePlayerInfo bothPlay pausedOnVlc"
    by blast
  have g: "playbackStatus (pausedOnVlc\<lparr>playbackStatus := Playing\<rparr>) = Playing" by simp
  from takeover_only_by_playing_peer [of "pausedOnVlc\<lparr>playbackStatus := Playing\<rparr>" peerPlays] g
  have d: "checkForBetterPlayer peerPlays (pausedOnVlc\<lparr>playbackStatus := Playing\<rparr>) =
       pausedOnVlc\<lparr>playbackStatus := Playing\<rparr>"
    by blast
  show ?thesis using s1 s2 s3 s4 s5 p1 p3 p5 a a' b c poll g d by blast
qed

subsection \<open>The invariant of the event loop\<close>

lemma consistent_cong:
  assumes "playerInterface t = playerInterface s" "propertiesInterface t = propertiesInterface s"
    and "currentPlayer t = currentPlayer s" "availablePlayers t = availablePlayers s"
    and "playerSelectionMenu t = playerSelectionMenu s"
  shows "consistent t = consistent s"
  using assms by (simp add: consistent_def)

lemma consistent_trace [simp]: "consistent (s\<lparr>trace := t\<rparr>) = consistent s"
  by (rule consistent_cong) simp_all

lemma consistent_initial: "consistent initial"
  by (simp add: consistent_def initial_def)

lemma updateAvailablePlayers_frame:
  "playerInterface (updateAvailablePlayers b s) = playerInterface s"
  "propertiesInterface (updateAvailablePlayers b s) = propertiesInterface s"
  "currentPlayer (updateAvailablePlayers b s) = currentPlayer s"
  "trace (updateAvailablePlayers b s) = trace s"
  "availablePlayers (updateAvailablePlayers b s) =
     (case registeredServiceNames b of
        None \<Rightarrow> []
      | Some names \<Rightarrow> filter (prefix mprisPrefix) names)"
  by (simp_all add: updateAvailablePlayers_def Let_def split: option.splits)

lemma consistent_updateAvailablePlayers:
  "consistent s \<Longrightarrow> consistent (updateAvailablePlayers b s)"
  by (cases "registeredServiceNames b")
    (auto simp add: consistent_def updateAvailablePlayers_def Let_def)

lemma consistent_disconnectFromPlayer:
  "consistent s \<Longrightarrow> consistent (disconnectFromPlayer s)"
  by (simp add: consistent_def disconnectFromPlayer_def)

lemma consistent_updatePlayerInfo: "consistent (updatePlayerInfo b s) = consistent s"
  by (rule consistent_cong) (simp_all add: updatePlayerInfo_frame)

lemma consistent_bindTo:
  "consistent s \<Longrightarrow> x \<noteq> [] \<Longrightarrow> consistent (bindTo b x s)"
  unfolding bindTo_def
  by (rule consistent_updateAvailablePlayers) (simp add: consistent_def disconnectFromPlayer_def)

lemma consistent_connectToPlayer:
  assumes "consistent s" and "x \<noteq> []"
  shows "consistent (connectToPlayer b x s)"
proof (cases "player_valid b x")
  case True
  then show ?thesis
    using assms by (simp add: connectToPlayer_valid consistent_updatePlayerInfo consistent_bindTo)
next
  case False
  then show ?thesis
    using assms by (simp add: connectToPlayer_invalid consistent_disconnectFromPlayer)
qed

lemma consistent_bestPlayerLoop:
  assumes "consistent s" and "\<forall>x\<in>set xs. x \<noteq> []"
  shows "consistent (bestPlayerLoop b xs bestPlayer bestStatus s)"
  using assms
proof (induction xs arbitrary: bestPlayer bestStatus s)
  case Nil
  then show ?case by (simp add: consistent_connectToPlayer)
next
  case (Cons a xs)
  then have s': "consistent (s\<lparr>trace := trace s @ [Probe a]\<rparr>)" and a: "a \<noteq> []"
    and rest: "\<forall>x\<in>set xs. x \<noteq> []" by simp_all
  show ?case
    by (simp add: Let_def Cons.IH [OF s' rest] consistent_connectToPlayer [OF s' a]
        split: option.splits)
qed

lemma consistent_names: "consistent s \<Longrightarrow> x \<in> set (availablePlayers s) \<Longrightarrow> x \<noteq> []"
  by (auto simp add: consistent_def dest: prefix_mprisPrefix_nonempty)

lemma consistent_connectToBestPlayer:
  assumes "consistent s"
  shows "consistent (connectToBestPlayer b s)"
proof (cases "availablePlayers s")
  case Nil
  then show ?thesis using assms by (simp add: connectToBestPlayer_def)
next
  case (Cons x xs)
  have ne: "\<forall>y\<in>set (availablePlayers s). y \<noteq> []"
    using assms consistent_names by blast
  show ?thesis
  proof (cases xs)
    case Nil
    with Cons ne show ?thesis
      using assms by (simp add: connectToBestPlayer_def consistent_connectToPlayer)
  next
    case (Cons y ys)
    with \<open>availablePlayers s = x # xs\<close> have "1 < length (availablePlayers s)" by simp
    then show ?thesis
      using assms ne by (simp add: connectToBestPlayer_many consistent_bestPlayerLoop)
  qed
qed

lemma consistent_betterPlayerLoop:
  assumes "consistent s" and "\<forall>x\<in>set xs. x \<noteq> []"
  shows "consistent (betterPlayerLoop b xs s)"
  using assms
proof (induction xs arbitrary: s)
  case Nil
  then show ?case by simp
next
  case (Cons a xs)
  then have s': "consistent (s\<lparr>trace := trace s @ [Probe a]\<rparr>)" and a: "a \<noteq> []"
    and rest: "\<forall>x\<in>set xs. x \<noteq> []" by simp_all
  show ?case
    using Cons.prems(1)
    by (simp add: Let_def Cons.IH [OF s' rest] Cons.IH [OF Cons.prems(1) rest]
        consistent_connectToPlayer [OF s' a] split: option.splits)
qed

lemma consistent_checkForBetterPlayer:
  "consistent s \<Longrightarrow> consistent (checkForBetterPlayer b s)"
  using consistent_names [of s]
  by (simp add: checkForBetterPlayer_def consistent_betterPlayerLoop)

lemma consistent_refreshMediaInfo: "consistent s \<Longrightarrow> consistent (refreshMediaInfo b s)"
  by (simp add: refreshMediaInfo_def Let_def consistent_checkForBetterPlayer
      consistent_updatePlayerInfo)

lemma consistent_callPlayer: "consistent (callPlayer c s) = consistent s"
  by (cases "playerInterface s") (simp_all add: callPlayer_def)

lemma setPosition_no_fault:
  "consistent s \<Longrightarrow> setPosition b posMs s \<noteq> Inl NullDereference"
  by (auto simp add: setPosition_def consistent_def split: option.splits)

lemma setPosition_consistent:
  "consistent s \<Longrightarrow> setPosition b posMs s = Inr s' \<Longrightarrow> consistent s'"
  by (auto simp add: setPosition_def split: option.splits)

lemma onPositionSliderChanged_no_fault:
  "consistent s \<Longrightarrow> onPositionSliderChanged b val s \<noteq> Inl NullDereference"
  by (simp add: onPositionSliderChanged_def setPosition_no_fault)

lemma onPositionSliderChanged_consistent:
  "consistent s \<Longrightarrow> onPositionSliderChanged b val s = Inr s' \<Longrightarrow> consistent s'"
  by (auto simp add: onPositionSliderChanged_def split: if_splits dest: setPosition_consistent)

lemma menuSender_prefixed:
  assumes c: "consistent s" and m: "menuSender s i = Some x"
  shows "x \<noteq> []"
proof -
  have i: "i < length (playerSelectionMenu s)"
    using m by (simp add: menuSender_def split: if_splits)
  then obtain n ch where at: "playerSelectionMenu s ! i = PlayerAction n x ch"
    using m by (auto simp add: menuSender_def split: menu_action.splits)
  have "playerSelectionMenu s ! i \<in> set (playerSelectionMenu s)"
    using i by simp
  then have mem: "PlayerAction n x ch \<in> set (playerSelectionMenu s)"
    by (simp only: at)
  have "\<forall>a\<in>set (playerSelectionMenu s).
          case a of PlayerAction n d c \<Rightarrow> prefix mprisPrefix d | NoPlayersAction \<Rightarrow> True"
    using c by (simp add: consistent_def)
  from bspec [OF this mem] have "prefix mprisPrefix x" by simp
  then show ?thesis by (rule prefix_mprisPrefix_nonempty)
qed

lemma consistent_onPlayerSelected:
  "consistent s \<Longrightarrow> consistent (onPlayerSelected b (menuSender s i) s)"
  by (cases "menuSender s i")
    (simp_all add: onPlayerSelected_def consistent_connectToPlayer menuSender_prefixed)

lemma consistent_onDBusServiceRegistered:
  "consistent s \<Longrightarrow> consistent (onDBusServiceRegistered b service s)"
  by (simp add: onDBusServiceRegistered_def Let_def consistent_updateAvailablePlayers
      consistent_connectToBestPlayer)

lemma consistent_onDBusServiceUnregistered:
  "consistent s \<Longrightarrow> consistent (onDBusServiceUnregistered b service s)"
  by (simp add: onDBusServiceUnregistered_def Let_def consistent_updateAvailablePlayers
      consistent_connectToBestPlayer consistent_disconnectFromPlayer)

lemma consistent_mousePressEvent: "consistent s \<Longrightarrow> consistent (mousePressEvent button s)"
  by (cases button)
    (simp_all add: mousePressEvent_def onPlayPause_def onNext_def consistent_callPlayer)

lemma consistent_startup: "consistent (startup b)"
  by (simp add: startup_def Let_def consistent_connectToBestPlayer
      consistent_updateAvailablePlayers consistent_initial)

lemma handle_no_fault: "consistent s \<Longrightarrow> \<exists>s'. handle e s = Inr s'"
proof (cases e)
  case (SliderValueChanged b val)
  assume "consistent s"
  then have "onPositionSliderChanged b val s \<noteq> Inl NullDereference"
    by (rule onPositionSliderChanged_no_fault)
  then show ?thesis
    using SliderValueChanged
    by (cases "onPositionSliderChanged b val s") (auto intro: fault.exhaust)
qed simp_all

lemma handle_consistent: "consistent s \<Longrightarrow> handle e s = Inr s' \<Longrightarrow> consistent s'"
  by (cases e)
    (auto simp add: consistent_refreshMediaInfo onPlayPause_def onPrevious_def onNext_def
      consistent_callPlayer consistent_onPlayerSelected consistent_onDBusServiceRegistered
      consistent_onDBusServiceUnregistered consistent_mousePressEvent
      dest: onPositionSliderChanged_consistent)

lemma reachable_consistent: "reachable s \<Longrightarrow> consistent s"
  by (induction rule: reachable.induct) (auto intro: consistent_startup handle_consistent)

text \<open>
  Claim C10. In every state the event loop can reach, that is at the entry of every slot,
  the Player and the Properties interface pointers are both null or both set, and they are
  null exactly when no player is current. So \<^verbatim>\<open>setPosition\<close>, which tests only the Player
  pointer, never calls through a null Properties pointer, and no handler faults: each
  event leads to a reachable state again.
\<close>

theorem interfaces_null_together:
  assumes "reachable s"
  shows "(playerInterface s = None \<longleftrightarrow> propertiesInterface s = None)
       \<and> (playerInterface s = None \<longleftrightarrow> currentPlayer s = [])
       \<and> setPosition b posMs s \<noteq> Inl NullDereference
       \<and> onPositionSliderChanged b val s \<noteq> Inl NullDereference
       \<and> (\<exists>s'. handle e s = Inr s' \<and> reachable s')"
proof -
  have c: "consistent s" using assms by (rule reachable_consistent)
  obtain s' where h: "handle e s = Inr s'" using handle_no_fault [OF c] by blast
  then have "reachable s'" using assms by (rule reachable_handle [rotated])
  with h c show ?thesis
    by (auto simp add: setPosition_no_fault onPositionSliderChanged_no_fault consistent_def)
qed


subsection \<open>Recovery\<close>

lemma connectToBestPlayer_single:
  "availablePlayers s = [p] \<Longrightarrow> connectToBestPlayer b s = connectToPlayer b p s"
  by (simp add: connectToBestPlayer_def)

lemma availablePlayers_single:
  "registeredServiceNames b = Some names \<Longrightarrow> filter (prefix mprisPrefix) names = [p] \<Longrightarrow>
   availablePlayers (updateAvailablePlayers b s) = [p]"
  by (simp add: updateAvailablePlayers_frame)

lemma startup_single:
  assumes "registeredServiceNames b = Some names" and "filter (prefix mprisPrefix) names = [p]"
  shows "startup b = connectToPlayer b p (updateAvailablePlayers b initial)"
  using availablePlayers_single [OF assms, of initial]
  by (simp add: startup_def Let_def connectToBestPlayer_single)

lemma disconnectFromPlayer_availablePlayers:
  "availablePlayers (disconnectFromPlayer s) = availablePlayers s"
  by (simp add: disconnectFromPlayer_def)

lemma refreshMediaInfo_disconnected: "\<not> connected s \<Longrightarrow> refreshMediaInfo b s = s"
  by (simp add: refreshMediaInfo_def connected_def)

lemma vlcPlays_fields:
  "registeredServiceNames vlcPlays = Some [vlc]" "player_valid vlcPlays vlc"
  "filter (prefix mprisPrefix) [vlc] = [vlc]"
  by (simp_all add: vlcPlays_def playersBus_fields names_prefixed)

lemma bindFails_fields:
  "registeredServiceNames bindFails = Some [vlc]" "\<not> player_valid bindFails x"
  by (simp_all add: bindFails_def vlcPlays_def playersBus_def)

lemma startup_bindFails_eq:
  "startup bindFails = disconnectFromPlayer (updateAvailablePlayers bindFails initial)"
  using startup_single [OF bindFails_fields(1) vlcPlays_fields(3)]
  by (simp add: connectToPlayer_invalid bindFails_fields)

lemma startup_bindFails:
  "availablePlayers (startup bindFails) = [vlc]"
  "\<not> connected (startup bindFails)"
  "currentPlayer (startup bindFails) = []"
proof -
  show "availablePlayers (startup bindFails) = [vlc]"
    unfolding startup_bindFails_eq disconnectFromPlayer_availablePlayers
    by (rule availablePlayers_single [OF bindFails_fields(1) vlcPlays_fields(3)])
  show "\<not> connected (startup bindFails)"
    by (simp add: startup_bindFails_eq connected_def disconnectFromPlayer_handles)
  show "currentPlayer (startup bindFails) = []"
    by (simp add: startup_bindFails_eq disconnectFromPlayer_handles)
qed

text \<open>
  Claim C4, as stated, fails. The controller starts while \<open>vlc\<close> is registered but does
  not bind, and is left disconnected with \<open>vlc\<close> in its registry. On the next tick \<open>vlc\<close>
  would bind, yet the tick changes nothing: \<^verbatim>\<open>refreshMediaInfo\<close> returns at once when the
  Player pointer is null, so no discovery and no connection is attempted.
\<close>

theorem tick_leaves_disconnected:
  "reachable (startup bindFails)
   \<and> \<not> connected (startup bindFails)
   \<and> availablePlayers (startup bindFails) = [vlc]
   \<and> registeredServiceNames vlcPlays = Some [vlc]
   \<and> player_valid vlcPlays vlc
   \<and> handle (TimerTick vlcPlays) (startup bindFails) = Inr (startup bindFails)
   \<and> connected (connectToBestPlayer vlcPlays (startup bindFails))"
proof -
  have "connectToBestPlayer vlcPlays (startup bindFails) =
          connectToPlayer vlcPlays vlc (startup bindFails)"
    by (rule connectToBestPlayer_single) (rule startup_bindFails(1))
  then have "connected (connectToBestPlayer vlcPlays (startup bindFails))"
    by (simp add: connected_def connectToPlayer_currentPlayer vlcPlays_fields)
  then show ?thesis
    by (simp add: reachable_startup startup_bindFails vlcPlays_fields
        refreshMediaInfo_disconnected)
qed

lemma startup_vlcPlays:
  "playerInterface (startup vlcPlays) = Some vlc"
  "propertiesInterface (startup vlcPlays) = Some vlc"
  "currentPlayer (startup vlcPlays) = vlc"
  using startup_single [OF vlcPlays_fields(1) vlcPlays_fields(3)]
  by (simp_all add: connectToPlayer_currentPlayer vlcPlays_fields)

theorem interfaces_null_together_witness:
  "reachable (startup vlcPlays)
   \<and> playerInterface (startup vlcPlays) = Some vlc
   \<and> propertiesInterface (startup vlcPlays) = Some vlc
   \<and> currentPlayer (startup vlcPlays) = vlc
   \<and> setPosition vlcPlays 5000 (startup vlcPlays) \<noteq> Inl NullDereference
   \<and> reachable (startup bindFails)
   \<and> playerInterface (startup bindFails) = None
   \<and> propertiesInterface (startup bindFails) = None
   \<and> currentPlayer (startup bindFails) = []"
proof -
  have r: "reachable (startup vlcPlays)" "reachable (startup bindFails)"
    by (rule reachable_startup)+
  have n: "playerInterface (startup bindFails) = None"
    using startup_bindFails(2) by (simp add: connected_def)
  show ?thesis
    using interfaces_null_together [OF r(1), of vlcPlays 5000 0 PlayPauseTriggered]
      interfaces_null_together [OF r(2), of vlcPlays 5000 0 PlayPauseTriggered] r n
    by (simp add: startup_vlcPlays)
qed

subsection \<open>Resolving display names\<close>

lemma capitalizeFirst_Cons: "capitalizeFirst up (c # cs) = up [c] @ cs"
  by (simp add: capitalizeFirst_def)

lemma capitalizeFirst_nonempty:
  "\<forall>c. up [c] \<noteq> [] \<Longrightarrow> s \<noteq> [] \<Longrightarrow> capitalizeFirst up s \<noteq> []"
  by (cases s) (simp_all add: capitalizeFirst_Cons)

lemma splitFirst_Nil_iff: "splitFirst sep s = [] \<longleftrightarrow> s = [] \<or> prefix sep s"
  by (cases s) simp_all

lemma serviceDisplayName_nonempty:
  assumes up: "\<forall>c. up [c] \<noteq> []"
    and d: "removeStr mprisPrefix service = c # cs" and c: "c \<noteq> CHR ''.''"
  shows "serviceDisplayName up service \<noteq> []"
proof -
  have "splitFirst ''.instance'' (c # cs) \<noteq> []"
    using c by (simp add: splitFirst_Nil_iff)
  then show ?thesis
    using d capitalizeFirst_nonempty [OF up]
    by (simp add: serviceDisplayName_def Let_def)
qed

lemma desktopDisplayName_nonempty:
  "\<forall>c. toUpper b [c] \<noteq> [] \<Longrightarrow> desktopDisplayName b service = Some n \<Longrightarrow> n \<noteq> []"
  by (auto simp add: desktopDisplayName_def split: option.splits if_splits
      dest: capitalizeFirst_nonempty)

lemma propertyDisplayName_nonempty:
  "\<forall>c. toUpper b [c] \<noteq> [] \<Longrightarrow> propertyDisplayName b service = Some n \<Longrightarrow> n \<noteq> []"
  by (auto simp add: propertyDisplayName_def split: option.splits if_splits
      dest: desktopDisplayName_nonempty)

lemma propertyDisplayName_None_iff:
  "propertyDisplayName b service = None \<longleftrightarrow>
     \<not> properties_valid b service
     \<or> (get_Identity b service = None \<or> get_Identity b service = Some [])
        \<and> (get_DesktopEntry b service = None \<or> get_DesktopEntry b service = Some [])"
  by (auto simp add: propertyDisplayName_def desktopDisplayName_def split: option.splits)

lemma dottedName_after_prefix: "dottedName (mprisPrefix @ rest) \<Longrightarrow> dottedName rest"
  by (simp add: mprisPrefix_def)

lemma dottedName_head: "dottedName (c # cs) \<Longrightarrow> c \<noteq> CHR ''.''"
  by (cases cs) simp_all

lemma removeStr_dottedName_aux:
  "pat = mprisPrefix \<Longrightarrow> dottedName s \<Longrightarrow>
   removeStr pat s \<noteq> [] \<and> hd (removeStr pat s) \<noteq> CHR ''.''"
proof (induction pat s rule: removeStr.induct)
  case (1 pat)
  then show ?case by simp
next
  case (2 pat c cs)
  show ?case
  proof (cases "pat \<noteq> [] \<and> prefix pat (c # cs)")
    case True
    then obtain rest where rest: "c # cs = pat @ rest" by (auto elim: prefixE)
    then have d: "drop (length pat) (c # cs) = rest" by simp
    have "dottedName rest"
      using "2.prems" rest by (simp add: dottedName_after_prefix)
    then show ?thesis using "2.IH"(1) [OF True "2.prems"(1)] True by (simp add: d)
  next
    case False
    then show ?thesis using dottedName_head [OF "2.prems"(2)] by auto
  qed
qed

lemma serviceDisplayName_dottedName:
  assumes "\<forall>c. up [c] \<noteq> []" and "dottedName s"
  shows "serviceDisplayName up s \<noteq> []"
proof -
  from removeStr_dottedName_aux [OF refl assms(2)]
  obtain c cs where "removeStr mprisPrefix s = c # cs" "c \<noteq> CHR ''.''"
    by (cases "removeStr mprisPrefix s") auto
  then show ?thesis by (rule serviceDisplayName_nonempty [OF assms(1)])
qed

text \<open>The table of known players and the generic rule, on the identifier with the
  namespace prefix removed.\<close>

lemma serviceDisplayName_table:
  "prefix ''firefox.instance'' (removeStr mprisPrefix service) \<Longrightarrow>
   serviceDisplayName up service = ''Firefox''"
  "prefix ''chromium.instance'' (removeStr mprisPrefix service) \<Longrightarrow>
   serviceDisplayName up service = ''Chromium''"
  "prefix ''chrome.instance'' (removeStr mprisPrefix service) \<Longrightarrow>
   serviceDisplayName up service = ''Chrome''"
  "prefix ''spotify.instance'' (removeStr mprisPrefix service) \<Longrightarrow>
   serviceDisplayName up service = ''Spotify''"
  "prefix ''vlc.instance'' (removeStr mprisPrefix service) \<Longrightarrow>
   serviceDisplayName up service = ''VLC''"
  by (auto simp add: serviceDisplayName_def Let_def elim!: prefixE)

lemma serviceDisplayName_generic:
  "\<not> knownPlayer (removeStr mprisPrefix service) \<Longrightarrow>
   serviceDisplayName up service =
     (if containsStr ''.instance'' (removeStr mprisPrefix service)
      then capitalizeFirst up (splitFirst ''.instance'' (removeStr mprisPrefix service))
      else capitalizeFirst up (removeStr mprisPrefix service))"
  by (simp add: serviceDisplayName_def Let_def knownPlayer_def)


text \<open>
  Claim C9. \<^verbatim>\<open>getPlayerDisplayName\<close> returns a string for every identifier and every bus,
  also when every query fails. For a bus name (non-empty elements separated by single
  dots), with a case mapping that does not erase a character, the string is not empty. The
  order is: a non-empty identity as it is; else a non-empty desktop entry with its first
  character upper-cased; else, when no property gives a name, the table of known players
  (Firefox, Chromium, Chrome, Spotify, VLC); else the text in front of \<^verbatim>\<open>.instance\<close>, or
  the whole remainder, with its first character upper-cased.
\<close>

theorem display_name_resolution:
  "(dottedName service \<and> (\<forall>c. toUpper b [c] \<noteq> []) \<longrightarrow> getPlayerDisplayName b service \<noteq> [])
   \<and> (properties_valid b service \<and> get_Identity b service = Some identity \<and> identity \<noteq> [] \<longrightarrow>
        getPlayerDisplayName b service = identity)
   \<and> (properties_valid b service
        \<and> (get_Identity b service = None \<or> get_Identity b service = Some [])
        \<and> get_DesktopEntry b service = Some desktop \<and> desktop \<noteq> [] \<longrightarrow>
        getPlayerDisplayName b service = capitalizeFirst (toUpper b) desktop)
   \<and> (propertyDisplayName b service = None \<longleftrightarrow>
        \<not> properties_valid b service
        \<or> (get_Identity b service = None \<or> get_Identity b service = Some [])
           \<and> (get_DesktopEntry b service = None \<or> get_DesktopEntry b service = Some []))
   \<and> (propertyDisplayName b service = None
        \<and> prefix ''firefox.instance'' (removeStr mprisPrefix service) \<longrightarrow>
        getPlayerDisplayName b service = ''Firefox'')
   \<and> (propertyDisplayName b service = None
        \<and> prefix ''chromium.instance'' (removeStr mprisPrefix service) \<longrightarrow>
        getPlayerDisplayName b service = ''Chromium'')
   \<and> (propertyDisplayName b service = None
        \<and> prefix ''chrome.instance'' (removeStr mprisPrefix service) \<longrightarrow>
        getPlayerDisplayName b service = ''Chrome'')
   \<and> (propertyDisplayName b service = None
        \<and> prefix ''spotify.instance'' (removeStr mprisPrefix service) \<longrightarrow>
        getPlayerDisplayName b service = ''Spotify'')
   \<and> (propertyDisplayName b service = None
        \<and> prefix ''vlc.instance'' (removeStr mprisPrefix service) \<longrightarrow>
        getPlayerDisplayName b service = ''VLC'')
   \<and> (propertyDisplayName b service = None
        \<and> \<not> knownPlayer (removeStr mprisPrefix service)
        \<and> containsStr ''.instance'' (removeStr mprisPrefix service) \<longrightarrow>
        getPlayerDisplayName b service =
          capitalizeFirst (toUpper b) (splitFirst ''.instance'' (removeStr mprisPrefix service)))
   \<and> (propertyDisplayName b service = None
        \<and> \<not> knownPlayer (removeStr mprisPrefix service)
        \<and> \<not> containsStr ''.instance'' (removeStr mprisPrefix service) \<longrightarrow>
        getPlayerDisplayName b service =
          capitalizeFirst (toUpper b) (removeStr mprisPrefix service))"
proof -
  let ?d = "removeStr mprisPrefix service"
  have fall: "getPlayerDisplayName b service = serviceDisplayName (toUpper b) service"
    if "propertyDisplayName b service = None"
    using that by (simp add: getPlayerDisplayName_def)
  have c1: "dottedName service \<and> (\<forall>c. toUpper b [c] \<noteq> []) \<longrightarrow>
      getPlayerDisplayName b service \<noteq> []"
  proof
    assume h: "dottedName service \<and> (\<forall>c. toUpper b [c] \<noteq> [])"
    then have wf: "dottedName service" and up: "\<forall>c. toUpper b [c] \<noteq> []" by blast+
    show "getPlayerDisplayName b service \<noteq> []"
    proof (cases "propertyDisplayName b service")
      case None
      then show ?thesis
        using serviceDisplayName_dottedName [OF up wf] by (simp add: getPlayerDisplayName_def)
    next
      case (Some n)
      then show ?thesis
        using propertyDisplayName_nonempty [OF up Some] by (simp add: getPlayerDisplayName_def)
    qed
  qed
  have c2: "properties_valid b service \<and> get_Identity b service = Some identity
      \<and> identity \<noteq> [] \<longrightarrow> getPlayerDisplayName b service = identity"
    by (simp add: getPlayerDisplayName_def propertyDisplayName_def)
  have c3: "properties_valid b service
        \<and> (get_Identity b service = None \<or> get_Identity b service = Some [])
        \<and> get_DesktopEntry b service = Some desktop \<and> desktop \<noteq> [] \<longrightarrow>
        getPlayerDisplayName b service = capitalizeFirst (toUpper b) desktop"
    by (auto simp add: getPlayerDisplayName_def propertyDisplayName_def desktopDisplayName_def)
  have c4: "propertyDisplayName b service = None \<longleftrightarrow>
        \<not> properties_valid b service
        \<or> (get_Identity b service = None \<or> get_Identity b service = Some [])
           \<and> (get_DesktopEntry b service = None \<or> get_DesktopEntry b service = Some [])"
    by (rule propertyDisplayName_None_iff)
  have t1: "propertyDisplayName b service = None \<and> prefix ''firefox.instance'' ?d \<longrightarrow>
        getPlayerDisplayName b service = ''Firefox''"
    using fall serviceDisplayName_table(1) [of service "toUpper b"] by simp
  have t2: "propertyDisplayName b service = None \<and> prefix ''chromium.instance'' ?d \<longrightarrow>
        getPlayerDisplayName b service = ''Chromium''"
    using fall serviceDisplayName_table(2) [of service "toUpper b"] by simp
  have t3: "propertyDisplayName b service = None \<and> prefix ''chrome.instance'' ?d \<longrightarrow>
        getPlayerDisplayName b service = ''Chrome''"
    using fall serviceDisplayName_table(3) [of service "toUpper b"] by simp
  have t4: "propertyDisplayName b service = None \<and> prefix ''spotify.instance'' ?d \<longrightarrow>
        getPlayerDisplayName b service = ''Spotify''"
    using fall serviceDisplayName_table(4) [of service "toUpper b"] by simp
  have t5: "propertyDisplayName b service = None \<and> prefix ''vlc.instance'' ?d \<longrightarrow>
        getPlayerDisplayName b service = ''VLC''"
    using fall serviceDisplayName_table(5) [of service "toUpper b"] by simp
  have g1: "propertyDisplayName b service = None \<and> \<not> knownPlayer ?d
        \<and> containsStr ''.instance'' ?d \<longrightarrow>
        getPlayerDisplayName b service =
          capitalizeFirst (toUpper b) (splitFirst ''.instance'' ?d)"
    using fall serviceDisplayName_generic [of service "toUpper b"] by simp
  have g2: "propertyDisplayName b service = None \<and> \<not> knownPlayer ?d
        \<and> \<not> containsStr ''.instance'' ?d \<longrightarrow>
        getPlayerDisplayName b service = capitalizeFirst (toUpper b) ?d"
    using fall serviceDisplayName_generic [of service "toUpper b"] by simp
  show ?thesis
    by (intro conjI c1 c2 c3 c4 t1 t2 t3 t4 t5 g1 g2)
qed

lemma asciiUpper_letters:
  "asciiUpper [CHR ''m''] = ''M''" "asciiUpper [CHR ''f''] = ''F''" "asciiUpper [CHR ''v''] = ''V''"
  by code_simp+

lemma asciiUpper_nonempty: "\<forall>c. asciiUpper [c] \<noteq> []"
  by (simp add: asciiUpper_def)

lemma namedBus_fields:
  "properties_valid namedBus x" "get_Identity namedBus vlc = Some ''VLC media player''"
  "get_Identity namedBus mpv = None" "get_DesktopEntry namedBus mpv = Some ''mpv''"
  "toUpper namedBus = asciiUpper"
  by (simp_all add: namedBus_def silentBus_def names_distinct)

lemma silentBus_names:
  "propertyDisplayName silentBus x = None" "toUpper silentBus = asciiUpper"
  by (simp_all add: propertyDisplayName_def silentBus_def)



theorem display_name_resolution_witness:
  "dottedName ''org.mpris.MediaPlayer2.vlc'' \<and> (\<forall>c. toUpper silentBus [c] \<noteq> [])
   \<and> getPlayerDisplayName silentBus ''org.mpris.MediaPlayer2.vlc'' \<noteq> []
   \<and> getPlayerDisplayName silentBus ''org.mpris.MediaPlayer2.vlc'' = ''Vlc''
   \<and> properties_valid namedBus vlc \<and> get_Identity namedBus vlc = Some ''VLC media player''
   \<and> getPlayerDisplayName namedBus vlc = ''VLC media player''
   \<and> get_Identity namedBus mpv = None \<and> get_DesktopEntry namedBus mpv = Some ''mpv''
   \<and> getPlayerDisplayName namedBus mpv = ''Mpv''
   \<and> propertyDisplayName silentBus ''org.mpris.MediaPlayer2.firefox.instance_1_23'' = None
   \<and> getPlayerDisplayName silentBus ''org.mpris.MediaPlayer2.firefox.instance_1_23'' = ''Firefox''
   \<and> getPlayerDisplayName silentBus ''org.mpris.MediaPlayer2.chromium.instance9'' = ''Chromium''
   \<and> getPlayerDisplayName silentBus ''org.mpris.MediaPlayer2.chrome.instance9'' = ''Chrome''
   \<and> getPlayerDisplayName silentBus ''org.mpris.MediaPlayer2.spotify.instance9'' = ''Spotify''
   \<and> getPlayerDisplayName silentBus ''org.mpris.MediaPlayer2.vlc.instance9'' = ''VLC''
   \<and> getPlayerDisplayName silentBus ''org.mpris.MediaPlayer2.foo.instance7'' = ''Foo''"
proof -
  have d: "dottedName ''org.mpris.MediaPlayer2.vlc''" by simp
  have u: "\<forall>c. toUpper silentBus [c] \<noteq> []"
    by (simp add: silentBus_names asciiUpper_nonempty)
  have r0: "removeStr mprisPrefix ''org.mpris.MediaPlayer2.vlc'' = ''vlc''"
    by (simp add: mprisPrefix_def)
  have r6: "removeStr mprisPrefix ''org.mpris.MediaPlayer2.foo.instance7'' = ''foo.instance7''"
    by (simp add: mprisPrefix_def)
  have n: "getPlayerDisplayName silentBus ''org.mpris.MediaPlayer2.vlc'' \<noteq> []"
    by (rule display_name_resolution
        [of "''org.mpris.MediaPlayer2.vlc''" silentBus "[]" "[]", THEN conjunct1, THEN mp])
      (simp add: u)
  have v: "getPlayerDisplayName silentBus ''org.mpris.MediaPlayer2.vlc'' = ''Vlc''"
    using display_name_resolution
        [of "''org.mpris.MediaPlayer2.vlc''" silentBus "[]" "[]", THEN conjunct2, THEN conjunct2, THEN conjunct2, THEN conjunct2, THEN conjunct2, THEN conjunct2, THEN conjunct2, THEN conjunct2, THEN conjunct2, THEN conjunct2, unfolded r0]
    by (simp add: silentBus_names knownPlayer_def capitalizeFirst_Cons asciiUpper_letters)
  have a: "getPlayerDisplayName namedBus vlc = ''VLC media player''"
    using display_name_resolution [of vlc namedBus "''VLC media player''" "[]", THEN conjunct2, THEN conjunct1]
    by (simp add: namedBus_fields)
  have b: "getPlayerDisplayName namedBus mpv = ''Mpv''"
    using display_name_resolution [of mpv namedBus "[]" "''mpv''", THEN conjunct2, THEN conjunct2, THEN conjunct1]
    by (simp add: namedBus_fields capitalizeFirst_Cons asciiUpper_letters)
  have rt1: "removeStr mprisPrefix ''org.mpris.MediaPlayer2.firefox.instance_1_23'' = ''firefox.instance_1_23''"
    by (simp add: mprisPrefix_def)
  have t1: "getPlayerDisplayName silentBus ''org.mpris.MediaPlayer2.firefox.instance_1_23'' = ''Firefox''"
    using display_name_resolution
        [of "''org.mpris.MediaPlayer2.firefox.instance_1_23''" silentBus "[]" "[]", THEN conjunct2, THEN conjunct2, THEN conjunct2, THEN conjunct2, THEN conjunct1, unfolded rt1]
    by (simp add: silentBus_names)
  have rt2: "removeStr mprisPrefix ''org.mpris.MediaPlayer2.chromium.instance9'' = ''chromium.instance9''"
    by (simp add: mprisPrefix_def)
  have t2: "getPlayerDisplayName silentBus ''org.mpris.MediaPlayer2.chromium.instance9'' = ''Chromium''"
    using display_name_resolution
        [of "''org.mpris.MediaPlayer2.chromium.instance9''" silentBus "[]" "[]", THEN conjunct2, THEN conjunct2, THEN conjunct2, THEN conjunct2, THEN conjunct2, THEN conjunct1, unfolded rt2]
    by (simp add: silentBus_names)
  have rt3: "removeStr mprisPrefix ''org.mpris.MediaPlayer2.chrome.instance9'' = ''chrome.instance9''"
    by (simp add: mprisPrefix_def)
  have t3: "getPlayerDisplayName silentBus ''org.mpris.MediaPlayer2.chrome.instance9'' = ''Chrome''"
    using display_name_resolution
        [of "''org.mpris.MediaPlayer2.chrome.instance9''" silentBus "[]" "[]", THEN conjunct2, THEN conjunct2, THEN conjunct2, THEN conjunct2, THEN conjunct2, THEN conjunct2, THEN conjunct1, unfolded rt3]
    by (simp add: silentBus_names)
  have rt4: "removeStr mprisPrefix ''org.mpris.MediaPlayer2.spotify.instance9'' = ''spotify.instance9''"
    by (simp add: mprisPrefix_def)
  have t4: "getPlayerDisplayName silentBus ''org.mpris.MediaPlayer2.spotify.instance9'' = ''Spotify''"
    using display_name_resolution
        [of "''org.mpris.MediaPlayer2.spotify.instance9''" silentBus "[]" "[]", THEN conjunct2, THEN conjunct2, THEN conjunct2, THEN conjunct2, THEN conjunct2, THEN conjunct2, THEN conjunct2, THEN conjunct1, unfolded rt4]
    by (simp add: silentBus_names)
  have rt5: "removeStr mprisPrefix ''org.mpris.MediaPlayer2.vlc.instance9'' = ''vlc.instance9''"
    by (simp add: mprisPrefix_def)
  have t5: "getPlayerDisplayName silentBus ''org.mpris.MediaPlayer2.vlc.instance9'' = ''VLC''"
    using display_name_resolution
        [of "''org.mpris.MediaPlayer2.vlc.instance9''" silentBus "[]" "[]", THEN conjunct2, THEN conjunct2, THEN conjunct2, THEN conjunct2, THEN conjunct2, THEN conjunct2, THEN conjunct2, THEN conjunct2, THEN conjunct1, unfolded rt5]
    by (simp add: silentBus_names)
  have g: "getPlayerDisplayName silentBus ''org.mpris.MediaPlayer2.foo.instance7'' = ''Foo''"
    using display_name_resolution
        [of "''org.mpris.MediaPlayer2.foo.instance7''" silentBus "[]" "[]", THEN conjunct2, THEN conjunct2, THEN conjunct2, THEN conjunct2, THEN conjunct2, THEN conjunct2, THEN conjunct2, THEN conjunct2, THEN conjunct2, THEN conjunct1, unfolded r6]
    by (simp add: silentBus_names knownPlayer_def capitalizeFirst_Cons asciiUpper_letters)
  show ?thesis
    by (intro conjI d u n v namedBus_fields(1-4) a b silentBus_names(1) t1 t2 t3 t4 t5 g)
qed


subsection \<open>What a disconnect leaves behind\<close>

lemma disconnectFromPlayer_keeps:
  "availablePlayers (disconnectFromPlayer s) = availablePlayers s"
  "playerSelectionMenu (disconnectFromPlayer s) = playerSelectionMenu s"
  "playPauseText (disconnectFromPlayer s) = playPauseText s"
  "sliderValue (disconnectFromPlayer s) = sliderValue s"
  "trace (disconnectFromPlayer s) = trace s"
  by (simp_all add: disconnectFromPlayer_def)

lemma bindTo_keeps:
  "playPauseText (bindTo b x s) = playPauseText s"
  "sliderValue (bindTo b x s) = sliderValue s"
  "availablePlayers (bindTo b x s) = availablePlayers (updateAvailablePlayers b s)"
  "playerSelectionMenu (bindTo b x s) =
     playerSelectionMenu (updateAvailablePlayers b (s\<lparr>currentPlayer := x\<rparr>))"
  by (simp_all add: bindTo_def updateAvailablePlayers_def disconnectFromPlayer_def Let_def
      split: option.splits)

lemma updatePlayerInfo_playPauseText:
  "playerInterface t = Some pl \<Longrightarrow> propertiesInterface t = Some p \<Longrightarrow>
   playPauseText (updatePlayerInfo b t) =
     (case get_PlaybackStatus b p of
        None \<Rightarrow> playPauseText t
      | Some reply \<Rightarrow> if parsePlaybackStatus reply = Playing then ''Pause'' else ''Play'')"
  by (simp add: poll_unfold cong: option.case_cong)

lemma updatePlayerInfo_sliderValue_cong:
  assumes "playerInterface t = Some pl" "propertiesInterface t = Some p"
    and "playerInterface t' = Some pl'" "propertiesInterface t' = Some p"
    and "hasPosition t = hasPosition t'" "durationMs t = durationMs t'"
    and "sliderValue t = sliderValue t'"
  shows "sliderValue (updatePlayerInfo b t) = sliderValue (updatePlayerInfo b t')"
  using assms by (simp add: poll_unfold cong: option.case_cong if_cong)

lemma updateAvailablePlayers_keeps:
  "playPauseText (updateAvailablePlayers b s) = playPauseText s"
  "sliderValue (updateAvailablePlayers b s) = sliderValue s"
  by (simp_all add: updateAvailablePlayers_def Let_def split: option.splits)

lemma updateAvailablePlayers_menu:
  assumes "registeredServiceNames b = Some names"
    and "filter (prefix mprisPrefix) names = p # ps"
  shows "playerSelectionMenu (updateAvailablePlayers b s) =
           map (\<lambda>service. PlayerAction (getPlayerDisplayName b service) service
                              (service = currentPlayer s)) (p # ps)"
  using assms by (simp add: updateAvailablePlayers_def Let_def)

lemma vlcPlays_name: "getPlayerDisplayName vlcPlays vlc = ''Vlc''"
proof -
  have "propertyDisplayName vlcPlays vlc = None"
    by (simp add: propertyDisplayName_def desktopDisplayName_def vlcPlays_def playersBus_fields)
  moreover have "removeStr mprisPrefix vlc = ''vlc''"
    by (simp add: vlc_def mprisPrefix_def)
  ultimately show ?thesis
    by (simp add: getPlayerDisplayName_def serviceDisplayName_def Let_def vlcPlays_def
        playersBus_fields capitalizeFirst_Cons asciiUpper_letters)
qed

lemma slider_at_song: "sliderBound (sliderPercentage 61500 200001) = 30"
  by (simp add: sliderBound_def sliderPercentage_def sdiv32_def signed_divide_int_def
      word_sless_alt)

lemma vlcPlays_replies:
  "get_PlaybackStatus vlcPlays vlc = Some ''Playing''" "get_Metadata vlcPlays vlc = Some song"
  "get_Position vlcPlays vlc = Some 61500999"
  by (simp_all add: vlcPlays_def playersBus_fields)

text \<open>
  Claim C8, as stated, fails. A controller that has scanned the bus and never connected
  shows \<open>vlc\<close> unticked in its menu, the caption \<^verbatim>\<open>Play\<close> and the slider at 0. After a
  connect to \<open>vlc\<close> and a disconnect right away it shows \<open>vlc\<close> ticked, the caption
  \<^verbatim>\<open>Pause\<close> and the slider at 30: \<^verbatim>\<open>disconnectFromPlayer\<close> resets none of the three.
\<close>

theorem connect_disconnect_residue:
  "\<not> connected (updateAvailablePlayers vlcPlays initial)
   \<and> playerSelectionMenu (updateAvailablePlayers vlcPlays initial) =
       [PlayerAction ''Vlc'' vlc False]
   \<and> playPauseText (updateAvailablePlayers vlcPlays initial) = ''Play''
   \<and> sliderValue (updateAvailablePlayers vlcPlays initial) = 0
   \<and> \<not> connected (disconnectFromPlayer
         (connectToPlayer vlcPlays vlc (updateAvailablePlayers vlcPlays initial)))
   \<and> playerSelectionMenu (disconnectFromPlayer
         (connectToPlayer vlcPlays vlc (updateAvailablePlayers vlcPlays initial))) =
       [PlayerAction ''Vlc'' vlc True]
   \<and> playPauseText (disconnectFromPlayer
         (connectToPlayer vlcPlays vlc (updateAvailablePlayers vlcPlays initial))) = ''Pause''
   \<and> sliderValue (disconnectFromPlayer
         (connectToPlayer vlcPlays vlc (updateAvailablePlayers vlcPlays initial))) = 30"
proof -
  let ?s = "updateAvailablePlayers vlcPlays initial"
  let ?t = "bindTo vlcPlays vlc ?s"
  have init: "currentPlayer initial = []" "playPauseText initial = ''Play''"
    "sliderValue initial = 0" "playerInterface initial = None"
    by (simp_all add: initial_def)
  have ne: "vlc \<noteq> []" by (simp add: vlc_def)
  have never: "\<not> connected ?s" "playerSelectionMenu ?s = [PlayerAction ''Vlc'' vlc False]"
    "playPauseText ?s = ''Play''" "sliderValue ?s = 0"
  proof -
    show "\<not> connected ?s"
      by (simp add: connected_def updateAvailablePlayers_frame init)
    show "playerSelectionMenu ?s = [PlayerAction ''Vlc'' vlc False]"
      using updateAvailablePlayers_menu [OF vlcPlays_fields(1) vlcPlays_fields(3), of initial] ne
      by (simp add: init vlcPlays_name)
    show "playPauseText ?s = ''Play''" "sliderValue ?s = 0"
      by (simp_all add: updateAvailablePlayers_keeps init)
  qed
  have c: "connectToPlayer vlcPlays vlc ?s = updatePlayerInfo vlcPlays ?t"
    by (rule connectToPlayer_valid) (rule vlcPlays_fields)
  have menu: "playerSelectionMenu (updatePlayerInfo vlcPlays ?t) = [PlayerAction ''Vlc'' vlc True]"
    using updateAvailablePlayers_menu [OF vlcPlays_fields(1) vlcPlays_fields(3),
        of "?s\<lparr>currentPlayer := vlc\<rparr>"]
    by (simp add: updatePlayerInfo_frame bindTo_keeps vlcPlays_name)
  have cap: "playPauseText (updatePlayerInfo vlcPlays ?t) = ''Pause''"
    using updatePlayerInfo_playPauseText [of ?t vlc vlc vlcPlays]
    by (simp add: bindTo_fields vlcPlays_replies parsePlaybackStatus_words)
  have sl: "sliderValue (updatePlayerInfo vlcPlays ?t) = 30"
    using updatePlayerInfo_connected [of ?t vlc vlc vlcPlays]
    by (simp add: bindTo_fields Let_def pollStatus_fields pollMetadata_fields
        pollPosition_fields vlcPlays_replies song_def usToMs_song word_sless_alt slider_at_song)
  have dc: "\<not> connected (disconnectFromPlayer u)" for u
    by (simp add: connected_def disconnectFromPlayer_handles)
  show ?thesis
    unfolding c
    by (simp add: never menu cap sl disconnectFromPlayer_keeps dc)
qed


text \<open>
  Claim C8, amended. \<^verbatim>\<open>disconnectFromPlayer\<close> leaves the state model empty (no active
  player, no title, artist or album, \<open>Stopped\<close>, position and duration 0, no position) and
  both interface pointers null, and calling it again changes nothing. Disconnecting right
  after \<^verbatim>\<open>connectToPlayer\<close> leaves the state model, the connection state, the label and the
  enabled flags and track label of a controller that never connected. When the connect did
  not bind, the whole state is that of a disconnect alone. When it did bind, the caption of
  the play/pause action and the slider's value are the ones the connect's poll wrote, the
  registry is the rescanned one and one poll stands in the trace.
\<close>

theorem disconnect_empty_idempotent:
  "stateModel (disconnectFromPlayer s) = emptyModel
   \<and> \<not> connected (disconnectFromPlayer s)
   \<and> propertiesInterface (disconnectFromPlayer s) = None
   \<and> disconnectFromPlayer (disconnectFromPlayer s) = disconnectFromPlayer s
   \<and> stateModel (disconnectFromPlayer (connectToPlayer b x s)) = stateModel initial
   \<and> connected (disconnectFromPlayer (connectToPlayer b x s)) = connected initial
   \<and> propertiesInterface (disconnectFromPlayer (connectToPlayer b x s)) = propertiesInterface initial
   \<and> getLabel b' (disconnectFromPlayer (connectToPlayer b x s)) = getLabel b' initial
   \<and> controlsEnabled (disconnectFromPlayer (connectToPlayer b x s)) = controlsEnabled initial
   \<and> sliderEnabled (disconnectFromPlayer (connectToPlayer b x s)) = sliderEnabled initial
   \<and> trackInfoLabel (disconnectFromPlayer (connectToPlayer b x s)) = trackInfoLabel initial
   \<and> (\<not> player_valid b x \<longrightarrow>
        disconnectFromPlayer (connectToPlayer b x s) = disconnectFromPlayer s)
   \<and> (player_valid b x \<longrightarrow>
        playPauseText (disconnectFromPlayer (connectToPlayer b x s)) =
          (case get_PlaybackStatus b x of
             None \<Rightarrow> playPauseText s
           | Some reply \<Rightarrow> if parsePlaybackStatus reply = Playing then ''Pause'' else ''Play'')
        \<and> sliderValue (disconnectFromPlayer (connectToPlayer b x s)) =
            sliderValue (updatePlayerInfo b ((boundTo x)\<lparr>sliderValue := sliderValue s\<rparr>))
        \<and> availablePlayers (disconnectFromPlayer (connectToPlayer b x s)) =
            availablePlayers (updateAvailablePlayers b s)
        \<and> trace (disconnectFromPlayer (connectToPlayer b x s)) = trace s @ [Poll x])"
proof -
  have widgets: "controlsEnabled (disconnectFromPlayer t) = controlsEnabled initial
      \<and> sliderEnabled (disconnectFromPlayer t) = sliderEnabled initial
      \<and> trackInfoLabel (disconnectFromPlayer t) = trackInfoLabel initial" for t
    by (simp add: disconnectFromPlayer_def initial_def)
  have model: "stateModel initial = emptyModel" "playerInterface initial = None"
    "propertiesInterface initial = None" "currentPlayer initial = []"
    by (simp_all add: initial_def stateModel_def emptyModel_def)
  have rest: "stateModel (disconnectFromPlayer t) = emptyModel
      \<and> \<not> connected (disconnectFromPlayer t)
      \<and> propertiesInterface (disconnectFromPlayer t) = None
      \<and> connected (disconnectFromPlayer t) = connected initial
      \<and> propertiesInterface (disconnectFromPlayer t) = propertiesInterface initial
      \<and> stateModel (disconnectFromPlayer t) = stateModel initial
      \<and> getLabel b' (disconnectFromPlayer t) = getLabel b' initial" for t
    by (simp add: stateModel_disconnectFromPlayer disconnectFromPlayer_handles connected_def
        getLabel_def model)
  have failed: "\<not> player_valid b x \<longrightarrow>
        disconnectFromPlayer (connectToPlayer b x s) = disconnectFromPlayer s"
    by (simp add: connectToPlayer_invalid disconnectFromPlayer_idem)
  have bound: "player_valid b x \<longrightarrow>
        playPauseText (disconnectFromPlayer (connectToPlayer b x s)) =
          (case get_PlaybackStatus b x of
             None \<Rightarrow> playPauseText s
           | Some reply \<Rightarrow> if parsePlaybackStatus reply = Playing then ''Pause'' else ''Play'')
        \<and> sliderValue (disconnectFromPlayer (connectToPlayer b x s)) =
            sliderValue (updatePlayerInfo b ((boundTo x)\<lparr>sliderValue := sliderValue s\<rparr>))
        \<and> availablePlayers (disconnectFromPlayer (connectToPlayer b x s)) =
            availablePlayers (updateAvailablePlayers b s)
        \<and> trace (disconnectFromPlayer (connectToPlayer b x s)) = trace s @ [Poll x]"
  proof
    assume v: "player_valid b x"
    have c: "connectToPlayer b x s = updatePlayerInfo b (bindTo b x s)"
      using v by (rule connectToPlayer_valid)
    have cap: "playPauseText (updatePlayerInfo b (bindTo b x s)) =
          (case get_PlaybackStatus b x of
             None \<Rightarrow> playPauseText s
           | Some reply \<Rightarrow> if parsePlaybackStatus reply = Playing then ''Pause'' else ''Play'')"
      using updatePlayerInfo_playPauseText [of "bindTo b x s" x x b]
      by (simp add: bindTo_fields bindTo_keeps cong: option.case_cong)
    have sm: "stateModel (bindTo b x s) = stateModel (boundTo x)"
      by (rule bindTo_fields)
    have sl: "sliderValue (updatePlayerInfo b (bindTo b x s)) =
            sliderValue (updatePlayerInfo b ((boundTo x)\<lparr>sliderValue := sliderValue s\<rparr>))"
      by (rule updatePlayerInfo_sliderValue_cong [where pl = x and pl' = x and p = x])
        (simp_all add: bindTo_fields bindTo_keeps boundTo_def initial_def bindTo_def
          updateAvailablePlayers_def disconnectFromPlayer_def Let_def split: option.splits)
    have tr: "trace (updatePlayerInfo b (bindTo b x s)) = trace s @ [Poll x]"
      using updatePlayerInfo_trace [of "bindTo b x s" x x b] by (simp add: bindTo_fields)
    show "playPauseText (disconnectFromPlayer (connectToPlayer b x s)) =
          (case get_PlaybackStatus b x of
             None \<Rightarrow> playPauseText s
           | Some reply \<Rightarrow> if parsePlaybackStatus reply = Playing then ''Pause'' else ''Play'')
        \<and> sliderValue (disconnectFromPlayer (connectToPlayer b x s)) =
            sliderValue (updatePlayerInfo b ((boundTo x)\<lparr>sliderValue := sliderValue s\<rparr>))
        \<and> availablePlayers (disconnectFromPlayer (connectToPlayer b x s)) =
            availablePlayers (updateAvailablePlayers b s)
        \<and> trace (disconnectFromPlayer (connectToPlayer b x s)) = trace s @ [Poll x]"
      unfolding c disconnectFromPlayer_keeps
      using cap sl tr by (simp add: updatePlayerInfo_frame bindTo_keeps)
  qed
  show ?thesis
    using widgets [of "connectToPlayer b x s"] rest [of "connectToPlayer b x s"] rest [of s]
      disconnectFromPlayer_idem [of s] failed bound
    by blast
qed

theorem disconnect_empty_idempotent_witness:
  "\<not> player_valid silentBus vlc
   \<and> disconnectFromPlayer (connectToPlayer silentBus vlc pausedOnVlc) =
       disconnectFromPlayer pausedOnVlc
   \<and> player_valid vlcPlays vlc
   \<and> stateModel (disconnectFromPlayer (connectToPlayer vlcPlays vlc initial)) = emptyModel
   \<and> playPauseText (disconnectFromPlayer (connectToPlayer vlcPlays vlc initial)) = ''Pause''
   \<and> trace (disconnectFromPlayer (connectToPlayer vlcPlays vlc initial)) = [Poll vlc]"
proof -
  have a: "\<not> player_valid silentBus vlc" by (simp add: silentBus_def)
  have v: "player_valid vlcPlays vlc" by (rule vlcPlays_fields)
  have i: "trace initial = []" "stateModel initial = emptyModel" "playPauseText initial = ''Play''"
    by (simp_all add: initial_def stateModel_def emptyModel_def)
  from disconnect_empty_idempotent [of pausedOnVlc silentBus vlc silentBus] a
  have f: "disconnectFromPlayer (connectToPlayer silentBus vlc pausedOnVlc) =
       disconnectFromPlayer pausedOnVlc"
    by blast
  from disconnect_empty_idempotent [of initial vlcPlays vlc silentBus] v
  have g: "stateModel (disconnectFromPlayer (connectToPlayer vlcPlays vlc initial)) = stateModel initial
      \<and> playPauseText (disconnectFromPlayer (connectToPlayer vlcPlays vlc initial)) =
          (case get_PlaybackStatus vlcPlays vlc of
             None \<Rightarrow> playPauseText initial
           | Some reply \<Rightarrow> if parsePlaybackStatus reply = Playing then ''Pause'' else ''Play'')
      \<and> trace (disconnectFromPlayer (connectToPlayer vlcPlays vlc initial)) = trace initial @ [Poll vlc]"
    by blast
  then have g': "stateModel (disconnectFromPlayer (connectToPlayer vlcPlays vlc initial)) = emptyModel
      \<and> playPauseText (disconnectFromPlayer (connectToPlayer vlcPlays vlc initial)) = ''Pause''
      \<and> trace (disconnectFromPlayer (connectToPlayer vlcPlays vlc initial)) = [Poll vlc]"
    by (simp add: i vlcPlays_replies parsePlaybackStatus_words)
  show ?thesis using a v f g' by blast
qed


subsection \<open>Recovery by notification\<close>

lemma mpvPlays_fields:
  "registeredServiceNames mpvPlays = Some [mpv]" "player_valid mpvPlays mpv"
  "filter (prefix mprisPrefix) [mpv] = [mpv]"
  by (simp_all add: mpvPlays_def playersBus_fields names_prefixed)

lemma onDBusServiceUnregistered_active:
  "prefix mprisPrefix service \<Longrightarrow> service = currentPlayer s \<Longrightarrow>
   onDBusServiceUnregistered b service s =
     updateAvailablePlayers b
       (let s' = updateAvailablePlayers b (disconnectFromPlayer s) in
        if availablePlayers s' \<noteq> [] then connectToBestPlayer b s' else s')"
  by (simp add: onDBusServiceUnregistered_def)

lemma onDBusServiceUnregistered_other:
  "prefix mprisPrefix service \<Longrightarrow> service \<noteq> currentPlayer s \<Longrightarrow>
   onDBusServiceUnregistered b service s = updateAvailablePlayers b s"
  by (simp add: onDBusServiceUnregistered_def)

text \<open>
  Claim C4, amended. In every reachable state: a timer tick of a disconnected controller
  does nothing; a bus that cannot be asked empties the registry and changes nothing of the
  connection. A registration notice for a name in the player namespace rescans the bus
  and, when the controller is disconnected and candidates are found, runs the best-player
  selection (with exactly one candidate that binds, the controller is connected to it);
  when the controller is connected it only rescans. An unregistration notice for the
  current player disconnects, rescans and runs the best-player selection on what is left
  (connected to the one candidate that binds; disconnected with an empty state model when
  nothing is left); for any other name in the namespace it only rescans.
\<close>

theorem recovery_by_notification:
  assumes "reachable s"
  shows "(\<not> connected s \<longrightarrow> refreshMediaInfo b s = s)
       \<and> (registeredServiceNames b = None \<longrightarrow>
            availablePlayers (updateAvailablePlayers b s) = []
            \<and> connected (updateAvailablePlayers b s) = connected s)
       \<and> (prefix mprisPrefix service \<and> \<not> connected s \<longrightarrow>
            onDBusServiceRegistered b service s =
              (let s' = updateAvailablePlayers b s in
               if availablePlayers s' \<noteq> [] then connectToBestPlayer b s' else s'))
       \<and> (prefix mprisPrefix service \<and> \<not> connected s
            \<and> registeredServiceNames b = Some names
            \<and> filter (prefix mprisPrefix) names = [p] \<and> player_valid b p \<longrightarrow>
            connected (onDBusServiceRegistered b service s)
            \<and> currentPlayer (onDBusServiceRegistered b service s) = p)
       \<and> (prefix mprisPrefix service \<and> connected s \<longrightarrow>
            onDBusServiceRegistered b service s = updateAvailablePlayers b s)
       \<and> (prefix mprisPrefix service \<and> service = currentPlayer s \<longrightarrow>
            onDBusServiceUnregistered b service s =
              updateAvailablePlayers b
                (let s' = updateAvailablePlayers b (disconnectFromPlayer s) in
                 if availablePlayers s' \<noteq> [] then connectToBestPlayer b s' else s'))
       \<and> (prefix mprisPrefix service \<and> service = currentPlayer s
            \<and> registeredServiceNames b = Some names
            \<and> filter (prefix mprisPrefix) names = [p] \<and> player_valid b p \<longrightarrow>
            connected (onDBusServiceUnregistered b service s)
            \<and> currentPlayer (onDBusServiceUnregistered b service s) = p)
       \<and> (prefix mprisPrefix service \<and> service = currentPlayer s
            \<and> availablePlayers (updateAvailablePlayers b s) = [] \<longrightarrow>
            \<not> connected (onDBusServiceUnregistered b service s)
            \<and> stateModel (onDBusServiceUnregistered b service s) = emptyModel)
       \<and> (prefix mprisPrefix service \<and> service \<noteq> currentPlayer s \<longrightarrow>
            onDBusServiceUnregistered b service s = updateAvailablePlayers b s)"
proof -
  have c: "consistent s" using assms by (rule reachable_consistent)
  have cur: "currentPlayer s = []" if "\<not> connected s"
    using c that by (auto simp add: consistent_def connected_def)
  have cur': "currentPlayer s \<noteq> []" if "connected s"
    using c that by (auto simp add: consistent_def connected_def)
  have av: "availablePlayers (updateAvailablePlayers b t) = availablePlayers (updateAvailablePlayers b s)"
    for t
    by (simp add: updateAvailablePlayers_frame)
  have k1: "\<not> connected s \<longrightarrow> refreshMediaInfo b s = s"
    by (simp add: refreshMediaInfo_disconnected)
  have k2: "registeredServiceNames b = None \<longrightarrow>
            availablePlayers (updateAvailablePlayers b s) = []
            \<and> connected (updateAvailablePlayers b s) = connected s"
    by (simp add: updateAvailablePlayers_frame connected_def)
  have reg: "onDBusServiceRegistered b service s =
              (let s' = updateAvailablePlayers b s in
               if availablePlayers s' \<noteq> [] then connectToBestPlayer b s' else s')"
    if "prefix mprisPrefix service" "\<not> connected s"
    using that cur by (simp add: onDBusServiceRegistered_def Let_def updateAvailablePlayers_frame)
  have k3: "prefix mprisPrefix service \<and> \<not> connected s \<longrightarrow>
            onDBusServiceRegistered b service s =
              (let s' = updateAvailablePlayers b s in
               if availablePlayers s' \<noteq> [] then connectToBestPlayer b s' else s')"
    using reg by blast
  have k4: "prefix mprisPrefix service \<and> \<not> connected s
            \<and> registeredServiceNames b = Some names
            \<and> filter (prefix mprisPrefix) names = [p] \<and> player_valid b p \<longrightarrow>
            connected (onDBusServiceRegistered b service s)
            \<and> currentPlayer (onDBusServiceRegistered b service s) = p"
  proof
    assume h: "prefix mprisPrefix service \<and> \<not> connected s
            \<and> registeredServiceNames b = Some names
            \<and> filter (prefix mprisPrefix) names = [p] \<and> player_valid b p"
    have one: "availablePlayers (updateAvailablePlayers b s) = [p]"
      using availablePlayers_single [of b names p s] h by simp
    have "onDBusServiceRegistered b service s = connectToPlayer b p (updateAvailablePlayers b s)"
      using h one reg by (simp add: Let_def connectToBestPlayer_single)
    with h show "connected (onDBusServiceRegistered b service s)
            \<and> currentPlayer (onDBusServiceRegistered b service s) = p"
      by (simp add: connected_def connectToPlayer_currentPlayer)
  qed
  have k5: "prefix mprisPrefix service \<and> connected s \<longrightarrow>
            onDBusServiceRegistered b service s = updateAvailablePlayers b s"
    using cur' by (auto simp add: onDBusServiceRegistered_def Let_def updateAvailablePlayers_frame)
  have k6: "prefix mprisPrefix service \<and> service = currentPlayer s \<longrightarrow>
            onDBusServiceUnregistered b service s =
              updateAvailablePlayers b
                (let s' = updateAvailablePlayers b (disconnectFromPlayer s) in
                 if availablePlayers s' \<noteq> [] then connectToBestPlayer b s' else s')"
    using onDBusServiceUnregistered_active [of service s b] by blast
  have k7: "prefix mprisPrefix service \<and> service = currentPlayer s
            \<and> registeredServiceNames b = Some names
            \<and> filter (prefix mprisPrefix) names = [p] \<and> player_valid b p \<longrightarrow>
            connected (onDBusServiceUnregistered b service s)
            \<and> currentPlayer (onDBusServiceUnregistered b service s) = p"
  proof
    assume h: "prefix mprisPrefix service \<and> service = currentPlayer s
            \<and> registeredServiceNames b = Some names
            \<and> filter (prefix mprisPrefix) names = [p] \<and> player_valid b p"
    have one: "availablePlayers (updateAvailablePlayers b (disconnectFromPlayer s)) = [p]"
      using availablePlayers_single [of b names p "disconnectFromPlayer s"] h by simp
    from h have h1: "prefix mprisPrefix service" and h2: "service = currentPlayer s"
      by blast+
    have "onDBusServiceUnregistered b service s =
        updateAvailablePlayers b
          (connectToPlayer b p (updateAvailablePlayers b (disconnectFromPlayer s)))"
      unfolding onDBusServiceUnregistered_active [OF h1 h2]
      using one by (simp add: Let_def connectToBestPlayer_single)
    with h show "connected (onDBusServiceUnregistered b service s)
            \<and> currentPlayer (onDBusServiceUnregistered b service s) = p"
      by (simp add: connected_def updateAvailablePlayers_frame connectToPlayer_currentPlayer)
  qed
  have k8: "prefix mprisPrefix service \<and> service = currentPlayer s
            \<and> availablePlayers (updateAvailablePlayers b s) = [] \<longrightarrow>
            \<not> connected (onDBusServiceUnregistered b service s)
            \<and> stateModel (onDBusServiceUnregistered b service s) = emptyModel"
  proof
    assume h: "prefix mprisPrefix service \<and> service = currentPlayer s
            \<and> availablePlayers (updateAvailablePlayers b s) = []"
    have none: "availablePlayers (updateAvailablePlayers b (disconnectFromPlayer s)) = []"
      using h av [of "disconnectFromPlayer s"] by simp
    from h have h1: "prefix mprisPrefix service" and h2: "service = currentPlayer s"
      by blast+
    have e: "onDBusServiceUnregistered b service s =
        updateAvailablePlayers b (updateAvailablePlayers b (disconnectFromPlayer s))"
      unfolding onDBusServiceUnregistered_active [OF h1 h2]
      using none by (simp add: Let_def)
    have m: "stateModel (updateAvailablePlayers b t) = stateModel t" for t
      by (simp add: stateModel_def updateAvailablePlayers_def Let_def split: option.splits)
    show "\<not> connected (onDBusServiceUnregistered b service s)
            \<and> stateModel (onDBusServiceUnregistered b service s) = emptyModel"
      unfolding e
      by (simp add: connected_def updateAvailablePlayers_frame disconnectFromPlayer_handles m
          stateModel_disconnectFromPlayer)
  qed
  have k9: "prefix mprisPrefix service \<and> service \<noteq> currentPlayer s \<longrightarrow>
            onDBusServiceUnregistered b service s = updateAvailablePlayers b s"
    using onDBusServiceUnregistered_other [of service s b] by blast
  show ?thesis
    by (intro conjI k1 k2 k3 k4 k5 k6 k7 k8 k9)
qed

theorem recovery_by_notification_witness:
  "reachable (startup bindFails) \<and> \<not> connected (startup bindFails)
   \<and> prefix mprisPrefix vlc \<and> registeredServiceNames vlcPlays = Some [vlc]
   \<and> filter (prefix mprisPrefix) [vlc] = [vlc] \<and> player_valid vlcPlays vlc
   \<and> refreshMediaInfo vlcPlays (startup bindFails) = startup bindFails
   \<and> connected (onDBusServiceRegistered vlcPlays vlc (startup bindFails))
   \<and> currentPlayer (onDBusServiceRegistered vlcPlays vlc (startup bindFails)) = vlc
   \<and> vlc \<noteq> currentPlayer (startup bindFails)
   \<and> onDBusServiceUnregistered vlcPlays vlc (startup bindFails) =
       updateAvailablePlayers vlcPlays (startup bindFails)
   \<and> registeredServiceNames silentBus = None
   \<and> availablePlayers (updateAvailablePlayers silentBus (startup bindFails)) = []
   \<and> reachable (startup vlcPlays) \<and> connected (startup vlcPlays)
   \<and> vlc = currentPlayer (startup vlcPlays)
   \<and> registeredServiceNames mpvPlays = Some [mpv]
   \<and> filter (prefix mprisPrefix) [mpv] = [mpv] \<and> player_valid mpvPlays mpv
   \<and> connected (onDBusServiceUnregistered mpvPlays vlc (startup vlcPlays))
   \<and> currentPlayer (onDBusServiceUnregistered mpvPlays vlc (startup vlcPlays)) = mpv
   \<and> onDBusServiceRegistered mpvPlays mpv (startup vlcPlays) =
       updateAvailablePlayers mpvPlays (startup vlcPlays)
   \<and> availablePlayers (updateAvailablePlayers silentBus (startup vlcPlays)) = []
   \<and> stateModel (onDBusServiceUnregistered silentBus vlc (startup vlcPlays)) = emptyModel"
proof -
  have r: "reachable (startup bindFails)" "reachable (startup vlcPlays)"
    by (rule reachable_startup)+
  have d: "\<not> connected (startup bindFails)" by (rule startup_bindFails)
  have cv: "connected (startup vlcPlays)" by (simp add: connected_def startup_vlcPlays)
  have cur: "vlc = currentPlayer (startup vlcPlays)" by (simp add: startup_vlcPlays)
  have ncur: "vlc \<noteq> currentPlayer (startup bindFails)"
    by (simp add: startup_bindFails vlc_def)
  have s: "registeredServiceNames silentBus = None" by (simp add: silentBus_def)
  have pv: "prefix mprisPrefix vlc" "prefix mprisPrefix mpv" by (rule names_prefixed)+
  note A = recovery_by_notification [OF r(1), of vlcPlays vlc "[vlc]" vlc]
  note B = recovery_by_notification [OF r(1), of silentBus vlc "[]" vlc]
  note C = recovery_by_notification [OF r(2), of mpvPlays vlc "[mpv]" mpv]
  note D = recovery_by_notification [OF r(2), of mpvPlays mpv "[mpv]" mpv]
  note E = recovery_by_notification [OF r(2), of silentBus vlc "[]" vlc]
  from A d have a1: "refreshMediaInfo vlcPlays (startup bindFails) = startup bindFails"
    by blast
  from A d pv vlcPlays_fields
  have a2: "connected (onDBusServiceRegistered vlcPlays vlc (startup bindFails))
      \<and> currentPlayer (onDBusServiceRegistered vlcPlays vlc (startup bindFails)) = vlc"
    by blast
  from A pv ncur
  have a3: "onDBusServiceUnregistered vlcPlays vlc (startup bindFails) =
       updateAvailablePlayers vlcPlays (startup bindFails)"
    by blast
  from B s have b1: "availablePlayers (updateAvailablePlayers silentBus (startup bindFails)) = []"
    by blast
  from C pv cur mpvPlays_fields
  have c1: "connected (onDBusServiceUnregistered mpvPlays vlc (startup vlcPlays))
      \<and> currentPlayer (onDBusServiceUnregistered mpvPlays vlc (startup vlcPlays)) = mpv"
    by blast
  from D pv cv
  have d1: "onDBusServiceRegistered mpvPlays mpv (startup vlcPlays) =
       updateAvailablePlayers mpvPlays (startup vlcPlays)"
    by blast
  from E s have e0: "availablePlayers (updateAvailablePlayers silentBus (startup vlcPlays)) = []"
    by blast
  from E pv cur e0
  have e1: "stateModel (onDBusServiceUnregistered silentBus vlc (startup vlcPlays)) = emptyModel"
    by blast
  show ?thesis
    using r d pv(1) vlcPlays_fields a1 a2 ncur a3 s b1 cv cur mpvPlays_fields c1 d1 e0 e1
    by blast
qed

end
